theory Spec2Isabelle
  imports Main
begin

section \<open>JavaScript values\<close>

text \<open>
  The three client operations (\<open>profileGuard\<close>, \<open>lockProfile\<close>, \<open>reactPost\<close>) are
  dynamically typed: every argument may be any value. The values of the model are
  \<open>undefined\<close>, JSON data (null, booleans, numbers, strings, arrays, plain objects),
  functions and \<open>Error\<close> objects.

  \<^item> Strings are byte strings: a \<open>string\<close> stands for the UTF-8 encoding of the
    JavaScript string (so \<open>Buffer.from(s)\<close> is the string itself).
  \<^item> Numbers are integers, printed in decimal. That is exact for the safe integers;
    JavaScript rounds the integers beyond \<open>2^53\<close> and prints those from \<open>1e21\<close> on with
    an exponent.
  \<^item> A plain object is an association list in the enumeration order of its keys,
    without duplicate keys; its properties are data, so it has no methods of its own.
  \<^item> A function value carries its kind (what \<open>utils.getType\<close> sees) and its source
    text, which is also what converting it to a string yields.
  \<^item> \<open>VError name message\<close> is an object made by \<open>new Error(message)\<close> or raised by
    the runtime (\<open>TypeError\<close>).

  Values of other kinds (numbers that are not integers, symbols, objects with methods
  or accessors of their own, generator functions, promises passed as arguments) are
  outside the model.
\<close>

datatype json =
    JNull
  | JBool bool
  | JNum int
  | JStr string
  | JArr "json list"
  | JObj "(string \<times> json) list"

datatype fkind = PlainFunction | AsyncFunction

datatype jsval =
    VUndefined
  | VJson json
  | VFun fkind string
  | VError string string

abbreviation str :: "string \<Rightarrow> jsval" where
  "str s \<equiv> VJson (JStr s)"

abbreviation null :: jsval where
  "null \<equiv> VJson JNull"

text \<open>Truthiness, as tested by \<open>!x\<close>, \<open>x || y\<close> and \<open>if (x)\<close>.\<close>

fun truthy_json :: "json \<Rightarrow> bool" where
  "truthy_json JNull = False"
| "truthy_json (JBool b) = b"
| "truthy_json (JNum n) = (n \<noteq> 0)"
| "truthy_json (JStr s) = (s \<noteq> [])"
| "truthy_json (JArr xs) = True"
| "truthy_json (JObj ps) = True"

fun truthy :: "jsval \<Rightarrow> bool" where
  "truthy VUndefined = False"
| "truthy (VJson j) = truthy_json j"
| "truthy (VFun k src) = True"
| "truthy (VError n m) = True"

text \<open>\<open>a || b\<close>\<close>

definition js_or :: "jsval \<Rightarrow> jsval \<Rightarrow> jsval" where
  "js_or a b = (if truthy a then a else b)"

text \<open>\<open>typeof v === 'boolean'\<close>\<close>

fun is_boolean :: "jsval \<Rightarrow> bool" where
  "is_boolean (VJson (JBool b)) = True"
| "is_boolean v = False"

text \<open>
  Modelled from the spec: \<open>utils.getType\<close> is not among the sources. The operations use
  it to recognise a boolean (\<open>"Boolean"\<close>) and a function in the second positional slot
  (\<open>"Function"\<close> or \<open>"AsyncFunction"\<close>); it is the class tag of the value.
\<close>

fun getType :: "jsval \<Rightarrow> string" where
  "getType VUndefined = ''Undefined''"
| "getType (VJson JNull) = ''Null''"
| "getType (VJson (JBool b)) = ''Boolean''"
| "getType (VJson (JNum n)) = ''Number''"
| "getType (VJson (JStr s)) = ''String''"
| "getType (VJson (JArr xs)) = ''Array''"
| "getType (VJson (JObj ps)) = ''Object''"
| "getType (VFun PlainFunction src) = ''Function''"
| "getType (VFun AsyncFunction src) = ''AsyncFunction''"
| "getType (VError n m) = ''Error''"

subsection \<open>Conversion to string\<close>

definition digit :: "nat \<Rightarrow> char" where
  "digit n = char_of (48 + n)"

function dec_nat :: "nat \<Rightarrow> string" where
  "dec_nat n = (if n < 10 then [digit n] else dec_nat (n div 10) @ [digit (n mod 10)])"
  by pat_completeness auto
termination
  by (relation "measure id") auto

definition dec_int :: "int \<Rightarrow> string" where
  "dec_int i = (if i < 0 then CHR ''-'' # dec_nat (nat (- i)) else dec_nat (nat i))"

text \<open>
  \<open>ToString\<close>, as applied by template literals and by the \<open>Error\<close> constructor. It
  raises a \<open>TypeError\<close> (the result \<open>None\<close>) on an object whose own \<open>toString\<close>
  property hides the inherited method: a data property is not callable. An array is
  joined with commas, \<open>null\<close> elements giving the empty string.
\<close>

fun to_string_json :: "json \<Rightarrow> string option"
  and join_elems :: "json list \<Rightarrow> string option" where
  "to_string_json JNull = Some ''null''"
| "to_string_json (JBool b) = Some (if b then ''true'' else ''false'')"
| "to_string_json (JNum n) = Some (dec_int n)"
| "to_string_json (JStr s) = Some s"
| "to_string_json (JArr xs) = join_elems xs"
| "to_string_json (JObj ps) =
     (if map_of ps ''toString'' \<noteq> None then None else Some ''[object Object]'')"
| "join_elems [] = Some []"
| "join_elems (x # xs) =
     (case (if x = JNull then Some [] else to_string_json x) of
        None \<Rightarrow> None
      | Some s \<Rightarrow>
          (if xs = [] then Some s
           else (case join_elems xs of None \<Rightarrow> None | Some t \<Rightarrow> Some (s @ '','' @ t))))"

fun ToString :: "jsval \<Rightarrow> string option" where
  "ToString VUndefined = Some ''undefined''"
| "ToString (VJson j) = to_string_json j"
| "ToString (VFun k src) = Some src"
| "ToString (VError n m) =
     Some (if n = [] then m else if m = [] then n else n @ '': '' @ m)"

subsection \<open>\<open>JSON.stringify\<close>\<close>

definition hex_digit :: "nat \<Rightarrow> char" where
  "hex_digit n = (if n < 10 then char_of (48 + n) else char_of (87 + n))"

definition quote_char :: "char \<Rightarrow> string" where
  "quote_char c =
     (let n = of_char c :: nat
      in if n = 34 then [CHR 0x5C, CHR 0x22]
         else if n = 92 then [CHR 0x5C, CHR 0x5C]
         else if n = 8 then [CHR 0x5C, CHR ''b'']
         else if n = 12 then [CHR 0x5C, CHR ''f'']
         else if n = 10 then [CHR 0x5C, CHR ''n'']
         else if n = 13 then [CHR 0x5C, CHR ''r'']
         else if n = 9 then [CHR 0x5C, CHR ''t'']
         else if n < 32 then [CHR 0x5C, CHR ''u'', CHR ''0'', CHR ''0'', hex_digit (n div 16), hex_digit (n mod 16)]
         else [c])"

definition quote :: "string \<Rightarrow> string" where
  "quote s = CHR 0x22 # concat (map quote_char s) @ [CHR 0x22]"

fun JSON_stringify :: "json \<Rightarrow> string"
  and stringify_elems :: "json list \<Rightarrow> string"
  and stringify_props :: "(string \<times> json) list \<Rightarrow> string" where
  "JSON_stringify JNull = ''null''"
| "JSON_stringify (JBool b) = (if b then ''true'' else ''false'')"
| "JSON_stringify (JNum n) = dec_int n"
| "JSON_stringify (JStr s) = quote s"
| "JSON_stringify (JArr xs) = ''['' @ stringify_elems xs @ '']''"
| "JSON_stringify (JObj ps) = ''{'' @ stringify_props ps @ ''}''"
| "stringify_elems [] = []"
| "stringify_elems (x # xs) =
     JSON_stringify x @ (if xs = [] then [] else '','' @ stringify_elems xs)"
| "stringify_props [] = []"
| "stringify_props (p # ps) =
     quote (fst p) @ '':'' @ JSON_stringify (snd p)
       @ (if ps = [] then [] else '','' @ stringify_props ps)"

text \<open>
  What an object literal contributes to \<open>JSON.stringify\<close> for a property value: a
  property whose value is \<open>undefined\<close> or a function is left out, and an \<open>Error\<close>
  object has no enumerable property.
\<close>

fun to_json :: "jsval \<Rightarrow> json option" where
  "to_json VUndefined = None"
| "to_json (VJson j) = Some j"
| "to_json (VFun k src) = None"
| "to_json (VError n m) = Some (JObj [])"

definition obj_literal :: "(string \<times> jsval) list \<Rightarrow> json" where
  "obj_literal ps = JObj (List.map_filter (\<lambda>(k, v). map_option (Pair k) (to_json v)) ps)"

text \<open>\<open>JSON.stringify(v)\<close> at top level: \<open>undefined\<close> (here \<open>None\<close>) for \<open>undefined\<close> and functions.\<close>

definition JSON_stringify_val :: "jsval \<Rightarrow> string option" where
  "JSON_stringify_val v = map_option JSON_stringify (to_json v)"

subsection \<open>String methods\<close>

text \<open>
  The upper case of an ASCII character: the letters \<open>a\<close> to \<open>z\<close> move to \<open>A\<close> to \<open>Z\<close>, and
  no other character changes. A string is ASCII when all its characters are below 128;
  a character from 128 on is part of the encoding of a character beyond ASCII.
\<close>

definition upper_char :: "char \<Rightarrow> char" where
  "upper_char c =
     (let n = of_char c :: nat in if 97 \<le> n \<and> n \<le> 122 then char_of (n - 32) else c)"

definition ascii :: "string \<Rightarrow> bool" where
  "ascii s = list_all (\<lambda>c. (of_char c :: nat) < 128) s"

text \<open>\<open>xs.join(sep)\<close> on strings.\<close>

fun join :: "string \<Rightarrow> string list \<Rightarrow> string" where
  "join sep [] = []"
| "join sep (x # xs) = x @ (if xs = [] then [] else sep @ join sep xs)"

text \<open>
  \<open>s.includes(sep)\<close> and \<open>s.split(sep)\<close> for a non-empty separator: \<open>after_sep\<close> is what
  follows the first occurrence of the separator, \<open>before_sep\<close> what precedes it (the
  whole string when there is none), so \<open>s.split(sep)[0]\<close> is \<open>before_sep sep s\<close> and
  \<open>s.split(sep)[1]\<close> is \<open>before_sep sep\<close> of what follows the first occurrence.
\<close>

fun after_sep :: "string \<Rightarrow> string \<Rightarrow> string option" where
  "after_sep sep [] = None"
| "after_sep sep (c # cs) =
     (if take (length sep) (c # cs) = sep then Some (drop (length sep) (c # cs))
      else after_sep sep cs)"

fun before_sep :: "string \<Rightarrow> string \<Rightarrow> string" where
  "before_sep sep [] = []"
| "before_sep sep (c # cs) =
     (if take (length sep) (c # cs) = sep then [] else c # before_sep sep cs)"

subsection \<open>Base64\<close>

text \<open>\<open>Buffer.from(s).toString('base64')\<close>: three bytes become four sextets, padded with \<open>=\<close>.\<close>

definition base64_alphabet :: string where
  "base64_alphabet = ''ABCDEFGHIJKLMNOPQRSTUVWXYZabcdefghijklmnopqrstuvwxyz0123456789+/''"

definition sextet :: "nat \<Rightarrow> char" where
  "sextet n = base64_alphabet ! n"

fun base64 :: "string \<Rightarrow> string" where
  "base64 [] = []"
| "base64 [a] =
     (let x = of_char a :: nat
      in [sextet (x div 4), sextet ((x mod 4) * 16), CHR ''='', CHR ''=''])"
| "base64 [a, b] =
     (let x = of_char a :: nat; y = of_char b :: nat
      in [sextet (x div 4), sextet ((x mod 4) * 16 + y div 16),
          sextet ((y mod 16) * 4), CHR ''=''])"
| "base64 (a # b # c # rest) =
     (let x = of_char a :: nat; y = of_char b :: nat; z = of_char c :: nat
      in [sextet (x div 4), sextet ((x mod 4) * 16 + y div 16),
          sextet ((y mod 16) * 4 + z div 64), sextet (z mod 64)] @ base64 rest)"




section \<open>Session, transport and observable behaviour\<close>

text \<open>
  The session context \<open>ctx\<close>: the current user identifier and the cookie jar, the latter
  as the list of cookie strings that \<open>ctx.jar.getCookiesSync(...)\<close> yields through
  \<open>cookie.cookieString()\<close>.
\<close>

record ctx =
  ctx_userID :: jsval
  ctx_jar :: "string list"

text \<open>
  A call of \<open>defaultFuncs.post(url, ctx.jar, form)\<close> or
  \<open>defaultFuncs.post(url, ctx.jar, form, {}, customHeader)\<close>; \<open>extra\<close> is the custom
  header of the five-argument call.
\<close>

record request =
  url :: string
  form :: "(string \<times> jsval) list"
  extra :: "(string \<times> string) list option"

text \<open>
  What \<open>defaultFuncs.post(...).then(utils.parseAndCheckLogin(ctx, defaultFuncs))\<close>
  settles to: the decoded response, or a rejection with some value.
\<close>

datatype response = Decoded jsval | Failed jsval

datatype 'v pstate = Pending | Fulfilled 'v | Rejected jsval

text \<open>What a promise of an operation is fulfilled with: a plain value or the result object.\<close>

datatype 'r "value" = JS jsval | Res 'r

text \<open>
  What a call of a caller-supplied function does: it returns a value, throws, or (an
  async function) returns a promise of its own.
\<close>

datatype completion = Value jsval | Thrown jsval | Thenable "jsval pstate"

text \<open>
  The collaborators, none of them among the sources, are parameters of the model:
  the transport with its response validator, the behaviour of a caller-supplied callback
  (identified by its source text) on its arguments \<open>(err, data)\<close>, the clock
  \<open>Date.now()\<close>, the value of \<open>Math.floor(Math.random() * 1000000)\<close>, and the
  successive results of \<open>utils.generateOfflineThreadingID()\<close> within one call.
  So is the Unicode case mapping of the platform: \<open>unicode_upper\<close> is what
  \<open>String.prototype.toUpperCase\<close> yields on a string that has characters beyond ASCII
  (it takes U+0131, the dotless i, to \<open>I\<close>, for one), which the model does not compute.
\<close>

record 'r env =
  transport :: "request \<Rightarrow> response"
  behave :: "string \<Rightarrow> jsval \<Rightarrow> 'r option \<Rightarrow> completion"
  date_now :: int
  random_million :: nat
  offline_threading_id :: "nat \<Rightarrow> string"
  unicode_upper :: "string \<Rightarrow> string"

text \<open>
  \<open>s.toUpperCase()\<close>: computed on an ASCII string, where only the letters \<open>a\<close> to \<open>z\<close>
  change, and taken from the platform's case mapping on any other string. Only a string
  has the method: calling it on any other value of the model raises a \<open>TypeError\<close>
  (\<open>None\<close>).
\<close>

definition toUpperCase :: "'r env \<Rightarrow> string \<Rightarrow> string" where
  "toUpperCase env s = (if ascii s then map upper_char s else unicode_upper env s)"

fun call_toUpperCase :: "'r env \<Rightarrow> jsval \<Rightarrow> string option" where
  "call_toUpperCase env (VJson (JStr s)) = Some (toUpperCase env s)"
| "call_toUpperCase env v = None"

text \<open>
  The observable events of a call, in order: \<open>utils.log\<close>, \<open>utils.error\<close>, a request
  handed to the transport, and a call of the caller-supplied callback with \<open>(err, data)\<close>
  (\<open>data\<close> is \<open>None\<close> when the argument is not passed).
\<close>

datatype 'r event =
    Log string string
  | ErrorLog string jsval
  | Post request
  | Callback string jsval "'r option"

text \<open>The state threaded through a call: the events so far and the promise \<open>returnPromise\<close>.\<close>

record 'r st =
  events :: "'r event list"
  internal :: "'r value pstate"

text \<open>The outcome of a call of an async operation: \<open>returned\<close> is the promise the caller receives.\<close>

record 'r run = "'r st" +
  returned :: "'r value pstate"

definition init :: "'r st" where
  "init = \<lparr>events = [], internal = Pending\<rparr>"

definition emit :: "'r event \<Rightarrow> 'r st \<Rightarrow> 'r st" where
  "emit e s = s\<lparr>events := events s @ [e]\<rparr>"

text \<open>\<open>resolveFunc\<close> and \<open>rejectFunc\<close>: a promise settles once.\<close>

definition resolveFunc :: "'r option \<Rightarrow> 'r st \<Rightarrow> 'r st" where
  "resolveFunc data s =
     (if internal s = Pending
      then s\<lparr>internal := Fulfilled (case data of None \<Rightarrow> JS VUndefined | Some r \<Rightarrow> Res r)\<rparr>
      else s)"

definition rejectFunc :: "jsval \<Rightarrow> 'r st \<Rightarrow> 'r st" where
  "rejectFunc err s = (if internal s = Pending then s\<lparr>internal := Rejected err\<rparr> else s)"

text \<open>
  The function bound to \<open>callback\<close>:
  \<^item> \<open>Wired\<close>: the default \<open>function (err, data) { if (err) return rejectFunc(err); resolveFunc(data); }\<close>;
  \<^item> \<open>Noop\<close>: the default \<open>() => {}\<close> of the first \<open>profileGuard\<close>;
  \<^item> \<open>User src\<close>: a function supplied by the caller;
  \<^item> \<open>NotCallable\<close>: a truthy value that is not a function, whose call raises a \<open>TypeError\<close>.
\<close>

datatype callee = Wired | Noop | User string | NotCallable

definition not_a_function :: jsval where
  "not_a_function = VError ''TypeError'' ''callback is not a function''"

fun invoke :: "'r env \<Rightarrow> callee \<Rightarrow> jsval \<Rightarrow> 'r option \<Rightarrow> 'r st \<Rightarrow> completion \<times> 'r st" where
  "invoke env Wired err data s =
     (Value VUndefined, if truthy err then rejectFunc err s else resolveFunc data s)"
| "invoke env Noop err data s = (Value VUndefined, s)"
| "invoke env (User f) err data s = (behave env f err data, emit (Callback f err data) s)"
| "invoke env NotCallable err data s = (Thrown not_a_function, s)"

text \<open>\<open>callback = callback || function (err, data) { ... }\<close>\<close>

definition callback_or_default :: "jsval \<Rightarrow> callee" where
  "callback_or_default callback =
     (if \<not> truthy callback then Wired
      else (case callback of VFun k f \<Rightarrow> User f | _ \<Rightarrow> NotCallable))"

text \<open>
  The handling of optional parameters in \<open>profileGuard\<close> and \<open>lockProfile\<close>:
  \<open>if (getType(userID) === "Function" || getType(userID) === "AsyncFunction")
     { callback = userID; userID = null; }\<close>. The result is \<open>(userID, callback)\<close>.
\<close>

definition optional_params :: "jsval \<Rightarrow> jsval \<Rightarrow> jsval \<times> jsval" where
  "optional_params userID callback =
     (if getType userID = ''Function'' \<or> getType userID = ''AsyncFunction''
      then (null, userID) else (userID, callback))"

text \<open>
  The promise that results from returning (or throwing) out of a promise handler:
  a returned promise is followed.
\<close>

fun settle :: "completion \<Rightarrow> jsval pstate" where
  "settle (Value v) = Fulfilled v"
| "settle (Thrown e) = Rejected e"
| "settle (Thenable p) = p"

text \<open>What an async function's promise becomes on \<open>return callback(error)\<close>.\<close>

definition adopt :: "completion \<Rightarrow> 'r value pstate" where
  "adopt c =
     (case settle c of
        Pending \<Rightarrow> Pending
      | Fulfilled v \<Rightarrow> Fulfilled (JS v)
      | Rejected e \<Rightarrow> Rejected e)"

text \<open>
  A failed local check: \<open>utils.error(who, error); return callback(error);\<close>. The
  promise of the async function settles with what the callback returns.
\<close>

definition fail_validation :: "'r env \<Rightarrow> callee \<Rightarrow> string \<Rightarrow> jsval \<Rightarrow> 'r st \<Rightarrow> 'r run" where
  "fail_validation env cb who error s =
     (let (c, s') = invoke env cb error None (emit (ErrorLog who error) s)
      in \<lparr>events = events s', internal = internal s', returned = adopt c\<rparr>)"

text \<open>
  After the \<open>try\<close> block, which either completed (\<open>None\<close>) or threw (\<open>Some error\<close>):
  \<open>catch (error) { utils.error(who, error); callback(error); } return returnPromise;\<close>.
  A callback that throws inside the handler rejects the async function's promise;
  otherwise the caller's promise follows \<open>returnPromise\<close>.
\<close>

definition finish :: "'r env \<Rightarrow> callee \<Rightarrow> string \<Rightarrow> jsval option \<times> 'r st \<Rightarrow> 'r run" where
  "finish env cb who r =
     (case r of
        (None, s) \<Rightarrow> \<lparr>events = events s, internal = internal s, returned = internal s\<rparr>
      | (Some error, s) \<Rightarrow>
          (let (c, s') = invoke env cb error None (emit (ErrorLog who error) s)
           in \<lparr>events = events s', internal = internal s',
               returned = (case c of Thrown e \<Rightarrow> Rejected e | _ \<Rightarrow> internal s')\<rparr>))"

subsection \<open>Reading the decoded response\<close>

text \<open>
  \<open>response.name\<close> for the names this code reads (\<open>err\<close>, \<open>error\<close>, \<open>errors\<close>): reading
  from \<open>undefined\<close> or \<open>null\<close> raises a \<open>TypeError\<close> (\<open>None\<close>); a plain object yields its
  property or \<open>undefined\<close>; no other value of the model carries such a property.
  The messages of the errors that the runtime raises are those of V8.
\<close>

fun get_field :: "jsval \<Rightarrow> string \<Rightarrow> jsval option" where
  "get_field VUndefined name = None"
| "get_field (VJson JNull) name = None"
| "get_field (VJson (JObj ps)) name =
     Some (case map_of ps name of None \<Rightarrow> VUndefined | Some j \<Rightarrow> VJson j)"
| "get_field v name = Some VUndefined"

definition cannot_read :: "jsval \<Rightarrow> string \<Rightarrow> jsval" where
  "cannot_read v name =
     VError ''TypeError''
       (''Cannot read properties of '' @ (if v = null then ''null'' else ''undefined'')
          @ '' (reading '' @ [CHR 0x27] @ name @ [CHR 0x27] @ '')'')"

definition cannot_convert :: jsval where
  "cannot_convert = VError ''TypeError'' ''Cannot convert object to primitive value''"

text \<open>\<open>new Error(message)\<close>: the message is converted to a string unless it is \<open>undefined\<close>.\<close>

definition new_Error :: "jsval \<Rightarrow> jsval" where
  "new_Error message =
     (if message = VUndefined then VError ''Error'' []
      else (case ToString message of
              None \<Rightarrow> cannot_convert
            | Some m \<Rightarrow> VError ''Error'' m))"

text \<open>
  The check made on the decoded response by \<open>lockProfile\<close>, \<open>reactPost\<close> and the second
  \<open>profileGuard\<close>:
  \<open>if (response.error || response.errors)
     throw new Error(response.error ? response.error : JSON.stringify(response.errors));\<close>
  \<open>remote_error\<close> is the object thrown, from the values of the two fields, and
  \<open>response_error\<close> the value that the check throws, if any.
\<close>

definition remote_error :: "jsval \<Rightarrow> jsval \<Rightarrow> jsval" where
  "remote_error error errors =
     new_Error (if truthy error then error
                else (case JSON_stringify_val errors of None \<Rightarrow> VUndefined | Some t \<Rightarrow> str t))"

definition response_error :: "jsval \<Rightarrow> jsval option" where
  "response_error response =
     (case get_field response ''error'' of
        None \<Rightarrow> Some (cannot_read response ''error'')
      | Some error \<Rightarrow>
          (case get_field response ''errors'' of
             None \<Rightarrow> Some (cannot_read response ''errors'')
           | Some errors \<Rightarrow>
               (if truthy error \<or> truthy errors then Some (remote_error error errors)
                else None)))"

text \<open>
  \<open>const response = await defaultFuncs.post(...).then(utils.parseAndCheckLogin(...))\<close>
  followed by the check of the response: the value thrown, if any.
\<close>

definition send :: "'r env \<Rightarrow> request \<Rightarrow> 'r st \<Rightarrow> jsval option \<times> 'r st" where
  "send env req s =
     (case transport env req of
        Failed e \<Rightarrow> (Some e, emit (Post req) s)
      | Decoded response \<Rightarrow> (response_error response, emit (Post req) s))"

text \<open>
  The end of the \<open>try\<close> block: \<open>utils.log(who, result.message); callback(null, result);\<close>.
  A callback that throws here is caught by the handler of the same block.
\<close>

definition succeed :: "'r env \<Rightarrow> callee \<Rightarrow> string \<Rightarrow> string \<Rightarrow> 'r \<Rightarrow> 'r st \<Rightarrow> jsval option \<times> 'r st" where
  "succeed env cb who message result s =
     (let (c, s') = invoke env cb null (Some result) (emit (Log who message) s)
      in (case c of Thrown e \<Rightarrow> (Some e, s') | _ \<Rightarrow> (None, s')))"

text \<open>Sequencing inside a \<open>try\<close> block: a statement that throws skips the rest of the block.\<close>

definition and_then ::
  "jsval option \<times> 'r st \<Rightarrow> ('r st \<Rightarrow> jsval option \<times> 'r st) \<Rightarrow> jsval option \<times> 'r st" where
  "and_then r rest = (case r of (Some e, s) \<Rightarrow> (Some e, s) | (None, s) \<Rightarrow> rest s)"

section \<open>The operations\<close>

subsection \<open>\<open>profileGuard\<close>, first variant\<close>

text \<open>
  The first variant is an ordinary (not async) function \<open>(guard, callback = () => {})\<close>:
  it throws synchronously on a non-boolean \<open>guard\<close>, and otherwise returns the promise of
  the chain \<open>post(...).then(parseAndCheckLogin).then(check).catch(handler)\<close>.
\<close>

datatype v1_result = Threw jsval | Promise "jsval pstate"

record v1_run =
  v1_events :: "unit event list"
  v1_result :: v1_result

text \<open>The default parameter value \<open>() => {}\<close> applies to \<open>undefined\<close> only.\<close>

definition callback_v1 :: "jsval \<Rightarrow> callee" where
  "callback_v1 callback =
     (case callback of VUndefined \<Rightarrow> Noop | VFun k f \<Rightarrow> User f | _ \<Rightarrow> NotCallable)"

definition profileGuard_v1_form :: "ctx \<Rightarrow> jsval \<Rightarrow> (string \<times> jsval) list" where
  "profileGuard_v1_form c guard =
     (let uid = ctx_userID c
      in [(''av'', uid),
          (''variables'', str (JSON_stringify (JObj
             [(''input'', obj_literal
                 [(''is_shielded'', VJson (JBool (truthy guard))),
                  (''actor_id'', uid),
                  (''client_mutation_id'', str ''1'')]),
              (''scale'', JNum 1)]))),
          (''doc_id'', str ''1477043292367183''),
          (''fb_api_req_friendly_name'', str ''IsShieldedSetMutation''),
          (''fb_api_caller_class'', str ''IsShieldedSetMutation'')])"

text \<open>\<open>.catch(err => { utils.error("setProfileGuard", err); return callback(err); })\<close>\<close>

definition catch_v1 :: "unit env \<Rightarrow> callee \<Rightarrow> jsval \<Rightarrow> unit st \<Rightarrow> v1_run" where
  "catch_v1 env cb err s =
     (let (c, s') = invoke env cb err None (emit (ErrorLog ''setProfileGuard'' err) s)
      in \<lparr>v1_events = events s', v1_result = Promise (settle c)\<rparr>)"

text \<open>
  The value thrown, if any, by
  \<open>function(resData) { if (resData.err) throw { err: resData.err }; ... }\<close>
  or by the steps of the chain before it.
\<close>

definition check_v1 :: "response \<Rightarrow> jsval option" where
  "check_v1 r =
     (case r of
        Failed e \<Rightarrow> Some e
      | Decoded resData \<Rightarrow>
          (case get_field resData ''err'' of
             None \<Rightarrow> Some (cannot_read resData ''err'')
           | Some err \<Rightarrow>
               (if truthy err then Some (VJson (obj_literal [(''err'', err)])) else None)))"

definition profileGuard_v1 :: "unit env \<Rightarrow> ctx \<Rightarrow> jsval \<Rightarrow> jsval \<Rightarrow> v1_run" where
  "profileGuard_v1 env c guard callback =
     (if getType guard \<noteq> ''Boolean''
      then \<lparr>v1_events = [],
            v1_result = Threw (VJson (JObj
              [(''error'', JStr ''Please pass a boolean as a second argument.'')]))\<rparr>
      else
        (let cb = callback_v1 callback;
             req = \<lparr>url = ''https://www.facebook.com/api/graphql'',
                    form = profileGuard_v1_form c guard, extra = None\<rparr>;
             s = emit (Post req) init
         in (case check_v1 (transport env req) of
               Some err \<Rightarrow> catch_v1 env cb err s
             | None \<Rightarrow>
                 (let (r, s') = invoke env cb VUndefined None s
                  in (case r of
                        Thrown e \<Rightarrow> catch_v1 env cb e s'
                      | _ \<Rightarrow> \<lparr>v1_events = events s', v1_result = Promise (settle r)\<rparr>)))))"

subsection \<open>\<open>profileGuard\<close>, second variant\<close>

record result =
  res_success :: bool
  res_message :: string

record user_result = result +
  res_userID :: jsval

record guard_result = user_result +
  res_enabled :: bool

text \<open>
  The loop over the cookies: the first cookie string that contains \<open>access_token=\<close>
  gives \<open>cookieStr.split('access_token=')[1].split(';')[0]\<close>; \<open>None\<close> is \<open>null\<close>.
\<close>

fun find_access_token :: "string list \<Rightarrow> string option" where
  "find_access_token [] = None"
| "find_access_token (cookieStr # cookies) =
     (case after_sep ''access_token='' cookieStr of
        Some rest \<Rightarrow> Some (before_sep '';'' (before_sep ''access_token='' rest))
      | None \<Rightarrow> find_access_token cookies)"

definition customHeader :: "string option \<Rightarrow> (string \<times> string) list" where
  "customHeader accessToken =
     (case accessToken of
        None \<Rightarrow> []
      | Some t \<Rightarrow> (if t \<noteq> [] then [(''Authorization'', ''OAuth '' @ t)] else []))"

definition profileGuard_form :: "'r env \<Rightarrow> jsval \<Rightarrow> jsval \<Rightarrow> (string \<times> jsval) list" where
  "profileGuard_form env enable targetUserID =
     [(''variables'', str (JSON_stringify (JObj
         [(''0'', obj_literal
             [(''is_shielded'', enable),
              (''actor_id'', targetUserID),
              (''client_mutation_id'', str (offline_threading_id env 0))])]))),
      (''doc_id'', str ''1477043292367183'')]"

definition profileGuard_try ::
  "guard_result env \<Rightarrow> ctx \<Rightarrow> callee \<Rightarrow> jsval \<Rightarrow> jsval \<Rightarrow> guard_result st
     \<Rightarrow> jsval option \<times> guard_result st" where
  "profileGuard_try env c cb enable targetUserID s =
     (let accessToken = find_access_token (ctx_jar c);
          req = \<lparr>url = ''https://graph.facebook.com/graphql'',
                 form = profileGuard_form env enable targetUserID,
                 extra = Some (customHeader accessToken)\<rparr>;
          message = ''Profile picture guard ''
            @ (if truthy enable then ''enabled'' else ''disabled'') @ '' successfully''
      in (case ToString targetUserID of
            None \<Rightarrow> (Some cannot_convert, s)
          | Some target \<Rightarrow>
              and_then
                (send env req
                   (emit (Log ''profileGuard''
                      ((if truthy enable then ''Enabling'' else ''Disabling'')
                         @ '' profile picture guard for user '' @ target)) s))
                (succeed env cb ''profileGuard'' message
                   \<lparr>res_success = True, res_message = message,
                    res_userID = targetUserID, res_enabled = truthy enable\<rparr>)))"

definition profileGuard ::
  "guard_result env \<Rightarrow> ctx \<Rightarrow> jsval \<Rightarrow> jsval \<Rightarrow> jsval \<Rightarrow> guard_result run" where
  "profileGuard env c enable userID callback =
     (let (userID', callback') = optional_params userID callback;
          cb = callback_or_default callback'
      in if \<not> is_boolean enable
         then fail_validation env cb ''profileGuard''
                (VError ''Error''
                   ''profileGuard: First parameter must be a boolean (true to enable, false to disable)'')
                init
         else
           (let targetUserID = js_or userID' (ctx_userID c)
            in if \<not> truthy targetUserID
               then fail_validation env cb ''profileGuard''
                      (VError ''Error''
                         ''profileGuard: User ID not found. Please ensure you are logged in.'')
                      init
               else finish env cb ''profileGuard''
                      (profileGuard_try env c cb enable targetUserID init)))"

subsection \<open>\<open>lockProfile\<close>\<close>

record lock_result = user_result +
  res_locked :: bool
  res_note :: string

definition lockProfile_variables :: "'r env \<Rightarrow> ctx \<Rightarrow> jsval \<Rightarrow> jsval \<Rightarrow> json" where
  "lockProfile_variables env c enable targetUserID =
     JObj [(''input'', obj_literal
        [(''is_locked'', enable),
         (''user_id'', targetUserID),
         (''actor_id'', ctx_userID c),
         (''client_mutation_id'', str (offline_threading_id env 0))])]"

definition lockProfile_form :: "'r env \<Rightarrow> ctx \<Rightarrow> jsval \<Rightarrow> jsval \<Rightarrow> (string \<times> jsval) list" where
  "lockProfile_form env c enable targetUserID =
     [(''fb_api_caller_class'', str ''RelayModern''),
      (''fb_api_req_friendly_name'', str ''ProfileCometSetProfileLockMutation''),
      (''variables'', str (JSON_stringify (lockProfile_variables env c enable targetUserID))),
      (''server_timestamps'', VJson (JBool True)),
      (''doc_id'', str ''5552698734782825'')]"

definition lockProfile_try ::
  "lock_result env \<Rightarrow> ctx \<Rightarrow> callee \<Rightarrow> jsval \<Rightarrow> jsval \<Rightarrow> lock_result st
     \<Rightarrow> jsval option \<times> lock_result st" where
  "lockProfile_try env c cb enable targetUserID s =
     (let req = \<lparr>url = ''https://www.facebook.com/api/graphql/'',
                 form = lockProfile_form env c enable targetUserID,
                 extra = None\<rparr>;
          message = ''Profile '' @ (if truthy enable then ''locked'' else ''unlocked'')
            @ '' successfully''
      in (case ToString targetUserID of
            None \<Rightarrow> (Some cannot_convert, s)
          | Some target \<Rightarrow>
              and_then
                (send env req
                   (emit (Log ''lockProfile''
                      ((if truthy enable then ''Locking'' else ''Unlocking'')
                         @ '' profile for user '' @ target)) s))
                (succeed env cb ''lockProfile'' message
                   \<lparr>res_success = True, res_message = message,
                    res_userID = targetUserID, res_locked = truthy enable,
                    res_note =
                      (if truthy enable
                       then ''Your profile is now locked. Only friends can see your posts and photos.''
                       else ''Your profile is now unlocked. Your privacy settings control who can see your content.'')\<rparr>)))"

definition lockProfile ::
  "lock_result env \<Rightarrow> ctx \<Rightarrow> jsval \<Rightarrow> jsval \<Rightarrow> jsval \<Rightarrow> lock_result run" where
  "lockProfile env c enable userID callback =
     (let (userID', callback') = optional_params userID callback;
          cb = callback_or_default callback'
      in if \<not> is_boolean enable
         then fail_validation env cb ''lockProfile''
                (VError ''Error''
                   ''lockProfile: First parameter must be a boolean (true to lock, false to unlock)'')
                init
         else
           (let targetUserID = js_or userID' (ctx_userID c)
            in if \<not> truthy targetUserID
               then fail_validation env cb ''lockProfile''
                      (VError ''Error''
                         ''lockProfile: User ID not found. Please ensure you are logged in.'')
                      init
               else finish env cb ''lockProfile''
                      (lockProfile_try env c cb enable targetUserID init)))"

subsection \<open>\<open>reactPost\<close>\<close>

definition REACTION_TYPES :: "(string \<times> int) list" where
  "REACTION_TYPES =
     [(''LIKE'', 1), (''LOVE'', 2), (''CARE'', 16), (''HAHA'', 4),
      (''WOW'', 3), (''SAD'', 7), (''ANGRY'', 8), (''NONE'', 0)]"

record react_result = result +
  res_postID :: jsval
  res_reaction :: string
  res_reactionValue :: int

text \<open>\<open>Buffer.from(`feedback:${postID}`).toString('base64')\<close>; \<open>None\<close> when the conversion of \<open>postID\<close> throws.\<close>

definition feedback_id :: "jsval \<Rightarrow> string option" where
  "feedback_id postID = map_option (\<lambda>p. base64 (''feedback:'' @ p)) (ToString postID)"

definition attribution_id_v2 :: "'r env \<Rightarrow> ctx \<Rightarrow> string option" where
  "attribution_id_v2 env c =
     map_option
       (\<lambda>u. ''ProfileCometTimelineListViewRoot.react,comet.profile.timeline.list,unexpected,''
              @ dec_int (date_now env) @ '','' @ dec_nat (random_million env) @ '','' @ u @ '',,'')
       (ToString (ctx_userID c))"

text \<open>The object \<open>variables\<close>; \<open>None\<close> when a template literal throws.\<close>

definition reactPost_variables :: "'r env \<Rightarrow> ctx \<Rightarrow> jsval \<Rightarrow> int \<Rightarrow> json option" where
  "reactPost_variables env c postID reactionValue =
     (case attribution_id_v2 env c of
        None \<Rightarrow> None
      | Some attribution \<Rightarrow>
          (case feedback_id postID of
             None \<Rightarrow> None
           | Some feedback \<Rightarrow>
               Some (JObj [(''input'', obj_literal
                 [(''attribution_id_v2'', str attribution),
                  (''feedback_id'', str feedback),
                  (''feedback_reaction'', VJson (JNum reactionValue)),
                  (''feedback_source'', str ''PROFILE''),
                  (''is_tracking_encrypted'', VJson (JBool False)),
                  (''tracking'', VJson (JArr [])),
                  (''session_id'', str (offline_threading_id env 0)),
                  (''actor_id'', ctx_userID c),
                  (''client_mutation_id'', str (offline_threading_id env 1))])])))"

definition reactPost_form :: "json \<Rightarrow> (string \<times> jsval) list" where
  "reactPost_form variables =
     [(''fb_api_caller_class'', str ''RelayModern''),
      (''fb_api_req_friendly_name'', str ''CometUFIFeedbackReactMutation''),
      (''variables'', str (JSON_stringify variables)),
      (''server_timestamps'', VJson (JBool True)),
      (''doc_id'', str ''5803809346330346'')]"

definition reactPost_result :: "jsval \<Rightarrow> string \<Rightarrow> int \<Rightarrow> react_result" where
  "reactPost_result postID normalizedReaction reactionValue =
     \<lparr>res_success = True,
      res_message =
        (if reactionValue = 0 then ''Reaction removed successfully''
         else ''Reacted with '' @ normalizedReaction @ '' successfully''),
      res_postID = postID,
      res_reaction = normalizedReaction,
      res_reactionValue = reactionValue\<rparr>"

definition reactPost_try ::
  "react_result env \<Rightarrow> ctx \<Rightarrow> callee \<Rightarrow> jsval \<Rightarrow> string \<Rightarrow> int \<Rightarrow> react_result st
     \<Rightarrow> jsval option \<times> react_result st" where
  "reactPost_try env c cb postID normalizedReaction reactionValue s =
     (case reactPost_variables env c postID reactionValue of
        None \<Rightarrow> (Some cannot_convert, s)
      | Some variables \<Rightarrow>
          (case ToString postID of
             None \<Rightarrow> (Some cannot_convert, s)
           | Some post \<Rightarrow>
               and_then
                 (send env
                    \<lparr>url = ''https://www.facebook.com/api/graphql/'',
                     form = reactPost_form variables, extra = None\<rparr>
                    (emit (Log ''reactPost''
                       ((if reactionValue = 0 then ''Removing reaction from''
                         else ''Adding '' @ normalizedReaction @ '' to'') @ '' post '' @ post)) s))
                 (succeed env cb ''reactPost''
                    (res_message (reactPost_result postID normalizedReaction reactionValue))
                    (reactPost_result postID normalizedReaction reactionValue))))"

definition reactPost ::
  "react_result env \<Rightarrow> ctx \<Rightarrow> jsval \<Rightarrow> jsval \<Rightarrow> jsval \<Rightarrow> react_result run" where
  "reactPost env c postID reactionType callback =
     (let cb = callback_or_default callback
      in if \<not> truthy postID
         then fail_validation env cb ''reactPost''
                (VError ''Error'' ''reactPost: Post ID is required'') init
         else if \<not> truthy reactionType
         then fail_validation env cb ''reactPost''
                (VError ''Error'' ''reactPost: Reaction type is required'') init
         else
           (case call_toUpperCase env reactionType of
              None \<Rightarrow>
                \<lparr>events = [], internal = Pending,
                 returned = Rejected
                   (VError ''TypeError'' ''reactionType.toUpperCase is not a function'')\<rparr>
            | Some normalizedReaction \<Rightarrow>
                (case map_of REACTION_TYPES normalizedReaction of
                   None \<Rightarrow>
                     fail_validation env cb ''reactPost''
                       (VError ''Error''
                          (''reactPost: Invalid reaction type. Must be one of: ''
                             @ join '', '' (map fst REACTION_TYPES)))
                       init
                 | Some reactionValue \<Rightarrow>
                     finish env cb ''reactPost''
                       (reactPost_try env c cb postID normalizedReaction reactionValue init))))"

section \<open>Observations on a run\<close>

text \<open>The requests handed to the transport, and the result objects delivered to a callback or a promise.\<close>

fun posted :: "'r event \<Rightarrow> request option" where
  "posted (Post req) = Some req"
| "posted e = None"

fun delivered :: "'r event \<Rightarrow> 'r option" where
  "delivered (Callback f err data) = data"
| "delivered e = None"

definition requests :: "'r event list \<Rightarrow> request list" where
  "requests es = List.map_filter posted es"

definition fulfilment :: "'r value pstate \<Rightarrow> 'r list" where
  "fulfilment p = (case p of Fulfilled (Res r) \<Rightarrow> [r] | _ \<Rightarrow> [])"

text \<open>What has been delivered in a state: to the callback, or to \<open>returnPromise\<close>.\<close>

definition deliveries :: "'r st \<Rightarrow> 'r list" where
  "deliveries s = List.map_filter delivered (events s) @ fulfilment (internal s)"

definition results :: "'r run \<Rightarrow> 'r list" where
  "results r =
     List.map_filter delivered (events r) @ fulfilment (internal r) @ fulfilment (returned r)"

text \<open>
  An error \<open>e\<close> is reported by a run: it is logged by \<open>utils.error\<close> and handed to the
  callback in effect, that is, it rejects the promise when the callback is the default
  one, and it is the first argument of a call of the callback supplied by the caller.
\<close>

definition reported :: "callee \<Rightarrow> string \<Rightarrow> jsval \<Rightarrow> 'r run \<Rightarrow> bool" where
  "reported cb who e r =
     (ErrorLog who e \<in> set (events r) \<and>
      (case cb of
         Wired \<Rightarrow> internal r = Rejected e \<and> returned r = Rejected e
       | User f \<Rightarrow> Callback f e None \<in> set (events r)
       | _ \<Rightarrow> True))"

text \<open>
  The run in which a validation error is logged and rejects \<open>returnPromise\<close>, while the
  promise that the caller receives is fulfilled with \<open>undefined\<close>.
\<close>

definition validation_error_lost :: "string \<Rightarrow> string \<Rightarrow> 'r run" where
  "validation_error_lost who message =
     \<lparr>events = [ErrorLog who (VError ''Error'' message)],
      internal = Rejected (VError ''Error'' message),
      returned = Fulfilled (JS VUndefined)\<rparr>"

subsection \<open>A concrete session\<close>

text \<open>
  A session and collaborators on which the operations can be run: the user
  \<open>100000000000001\<close>, a transport that answers every request with the given response,
  callbacks that return \<open>undefined\<close>, fixed values for the clock, the random number
  and the generated identifiers, and a case mapping that knows one character beyond
  ASCII: the dotless i (U+0131, the bytes \<open>C4 B1\<close> in UTF-8), which it takes to \<open>I\<close> as
  \<open>String.prototype.toUpperCase\<close> does.
\<close>

fun example_upper :: "string \<Rightarrow> string" where
  "example_upper (c # d # cs) =
     (if c = CHR 0xC4 \<and> d = CHR 0xB1 then CHR ''I'' # example_upper cs
      else upper_char c # example_upper (d # cs))"
| "example_upper [c] = [upper_char c]"
| "example_upper [] = []"

definition example_ctx :: ctx where
  "example_ctx = \<lparr>ctx_userID = str ''100000000000001'', ctx_jar = []\<rparr>"

definition example_env :: "response \<Rightarrow> 'r env" where
  "example_env r =
     \<lparr>transport = (\<lambda>req. r),
      behave = (\<lambda>f err data. Value VUndefined),
      date_now = 0,
      random_million = 0,
      offline_threading_id = (\<lambda>n. ''0''),
      unicode_upper = example_upper\<rparr>"

section \<open>Properties of the operations\<close>

subsection \<open>States, callbacks and the end of a call\<close>

lemma events_emit [simp]: "events (emit e s) = events s @ [e]"
  by (simp add: emit_def)

lemma internal_emit [simp]: "internal (emit e s) = internal s"
  by (simp add: emit_def)

lemma events_init [simp]: "events init = []"
  by (simp add: init_def)

lemma internal_init [simp]: "internal init = Pending"
  by (simp add: init_def)

lemma events_rejectFunc [simp]: "events (rejectFunc e s) = events s"
  by (simp add: rejectFunc_def)

lemma events_resolveFunc [simp]: "events (resolveFunc d s) = events s"
  by (simp add: resolveFunc_def)

lemma internal_rejectFunc [simp]:
  "internal (rejectFunc e s) = (if internal s = Pending then Rejected e else internal s)"
  by (simp add: rejectFunc_def)

lemma internal_resolveFunc [simp]:
  "internal (resolveFunc d s) =
     (if internal s = Pending
      then Fulfilled (case d of None \<Rightarrow> JS VUndefined | Some r \<Rightarrow> Res r)
      else internal s)"
  by (simp add: resolveFunc_def)

lemma fail_validation_Wired:
  "truthy error \<Longrightarrow>
   fail_validation env Wired who error init =
     \<lparr>events = [ErrorLog who error], internal = Rejected error, returned = Fulfilled (JS VUndefined)\<rparr>"
  by (simp add: fail_validation_def adopt_def)

lemma callback_or_default_falsy: "\<not> truthy callback \<Longrightarrow> callback_or_default callback = Wired"
  by (simp add: callback_or_default_def)

lemma optional_params_other:
  "getType userID \<noteq> ''Function'' \<Longrightarrow> getType userID \<noteq> ''AsyncFunction'' \<Longrightarrow>
   optional_params userID callback = (userID, callback)"
  by (simp add: optional_params_def)

lemma optional_params_function:
  "optional_params (VFun k f) callback = (null, VFun k f)"
  by (cases k) (simp_all add: optional_params_def)


subsection \<open>Requests and errors of a run\<close>

lemma requests_Nil [simp]: "requests [] = []"
  by (simp add: requests_def)

lemma requests_append [simp]: "requests (es @ fs) = requests es @ requests fs"
  by (simp add: requests_def List.map_filter_def)

lemma requests_Cons [simp]:
  "requests (e # es) = (case posted e of None \<Rightarrow> [] | Some r \<Rightarrow> [r]) @ requests es"
  by (simp add: requests_def List.map_filter_def split: option.splits)

lemma delivered_append [simp]:
  "List.map_filter delivered (es @ fs) = List.map_filter delivered es @ List.map_filter delivered fs"
  by (simp add: List.map_filter_def)

lemma truthy_VError [simp]: "truthy cannot_convert" "truthy (cannot_read v n)" "truthy not_a_function"
  by (simp_all add: cannot_convert_def cannot_read_def not_a_function_def)

lemma truthy_new_Error [simp]: "truthy (new_Error m)"
  by (simp add: new_Error_def cannot_convert_def split: option.splits)

lemma truthy_remote_error [simp]: "truthy (remote_error a b)"
  by (simp add: remote_error_def)

lemma fulfilment_simps [simp]:
  "fulfilment Pending = []" "fulfilment (Rejected e) = []" "fulfilment (Fulfilled (JS v)) = []"
  "fulfilment (Fulfilled (Res r)) = [r]"
  by (simp_all add: fulfilment_def)

lemma fulfilment_adopt [simp]: "fulfilment (adopt c) = []"
  by (simp add: adopt_def split: pstate.splits)

lemma finish_thrown:
  "internal s = Pending \<Longrightarrow> truthy e \<Longrightarrow>
   finish env cb who (Some e, s) =
     (case cb of
        Wired \<Rightarrow> \<lparr>events = events s @ [ErrorLog who e], internal = Rejected e, returned = Rejected e\<rparr>
      | Noop \<Rightarrow> \<lparr>events = events s @ [ErrorLog who e], internal = Pending, returned = Pending\<rparr>
      | User f \<Rightarrow>
          \<lparr>events = events s @ [ErrorLog who e, Callback f e None], internal = Pending,
           returned = (case behave env f e None of Thrown x \<Rightarrow> Rejected x | _ \<Rightarrow> Pending)\<rparr>
      | NotCallable \<Rightarrow>
          \<lparr>events = events s @ [ErrorLog who e], internal = Pending, returned = Rejected not_a_function\<rparr>)"
  by (cases cb) (simp_all add: finish_def split: completion.splits)

lemma results_record:
  "results \<lparr>events = es, internal = i, returned = r\<rparr> =
     List.map_filter delivered es @ fulfilment i @ fulfilment r"
  by (simp add: results_def)

lemma results_fail_validation: "truthy e \<Longrightarrow> results (fail_validation env cb who e init) = []"
  by (cases cb) (simp_all add: fail_validation_def results_def)

lemma requests_fail_validation: "requests (events (fail_validation env cb who e init)) = []"
  by (cases cb) (simp_all add: fail_validation_def)

lemma results_finish_thrown:
  "internal s = Pending \<Longrightarrow> truthy e \<Longrightarrow> List.map_filter delivered (events s) = [] \<Longrightarrow>
   results (finish env cb who (Some e, s)) = []"
  by (cases cb) (simp_all add: finish_thrown results_def split: completion.splits)

lemma requests_finish_thrown:
  "internal s = Pending \<Longrightarrow> truthy e \<Longrightarrow>
   requests (events (finish env cb who (Some e, s))) = requests (events s)"
  by (cases cb) (simp_all add: finish_thrown)

lemma reported_finish_thrown:
  "internal s = Pending \<Longrightarrow> truthy e \<Longrightarrow> reported cb who e (finish env cb who (Some e, s))"
  by (cases cb) (simp_all add: finish_thrown reported_def)

section \<open>Errors in the decoded response\<close>

lemma send_Decoded:
  "transport env req = Decoded response \<Longrightarrow>
   send env req s = (response_error response, emit (Post req) s)"
  by (simp add: send_def)

lemma response_error_present:
  "get_field response ''error'' = Some error \<Longrightarrow> get_field response ''errors'' = Some errors \<Longrightarrow>
   truthy error \<or> truthy errors \<Longrightarrow> response_error response = Some (remote_error error errors)"
  by (simp add: response_error_def)

text \<open>
  What the three operations share once the \<open>try\<close> block has thrown in a state where
  nothing has been delivered: no result, and, if a request went out, the report of the error.
\<close>

lemma thrown_in_try:
  assumes "internal s = Pending" and "truthy x" and "List.map_filter delivered (events s) = []"
    and "requests (events s) \<noteq> [] \<longrightarrow> x = e"
  shows "results (finish env cb who (Some x, s)) = []
       \<and> (requests (events (finish env cb who (Some x, s))) \<noteq> [] \<longrightarrow>
            reported cb who e (finish env cb who (Some x, s)))"
  using assms results_finish_thrown [of s x env cb who] requests_finish_thrown [of s x env cb who]
    reported_finish_thrown [of s x cb who env]
  by auto

lemma lockProfile_try_remote_error:
  assumes t: "\<And>req. transport env req = Decoded response"
    and r: "response_error response = Some e" and e: "truthy e"
  shows "\<exists>x s. lockProfile_try env c cb enable target init = (Some x, s) \<and> internal s = Pending
           \<and> truthy x \<and> List.map_filter delivered (events s) = []
           \<and> (requests (events s) \<noteq> [] \<longrightarrow> x = e)"
  by (cases "ToString target") (simp_all add: lockProfile_try_def and_then_def send_Decoded [OF t] r e)


lemma profileGuard_try_remote_error:
  assumes t: "\<And>req. transport env req = Decoded response"
    and r: "response_error response = Some e" and e: "truthy e"
  shows "\<exists>x s. profileGuard_try env c cb enable target init = (Some x, s) \<and> internal s = Pending
           \<and> truthy x \<and> List.map_filter delivered (events s) = []
           \<and> (requests (events s) \<noteq> [] \<longrightarrow> x = e)"
  by (cases "ToString target") (simp_all add: profileGuard_try_def and_then_def send_Decoded [OF t] r e)

lemma reactPost_try_remote_error:
  assumes t: "\<And>req. transport env req = Decoded response"
    and r: "response_error response = Some e" and e: "truthy e"
  shows "\<exists>x s. reactPost_try env c cb postID nr rv init = (Some x, s) \<and> internal s = Pending
           \<and> truthy x \<and> List.map_filter delivered (events s) = []
           \<and> (requests (events s) \<noteq> [] \<longrightarrow> x = e)"
  by (cases "reactPost_variables env c postID rv"; cases "ToString postID")
    (simp_all add: reactPost_try_def and_then_def send_Decoded [OF t] r e)

lemma lockProfile_remote_error:
  assumes t: "\<And>req. transport env req = Decoded response"
    and r: "response_error response = Some e" and e: "truthy e"
  shows "results (lockProfile env c enable userID callback) = []
       \<and> (requests (events (lockProfile env c enable userID callback)) \<noteq> [] \<longrightarrow>
            reported (callback_or_default (snd (optional_params userID callback))) ''lockProfile'' e
              (lockProfile env c enable userID callback))"
proof -
  obtain x s where
    "lockProfile_try env c (callback_or_default (snd (optional_params userID callback))) enable
       (js_or (fst (optional_params userID callback)) (ctx_userID c)) init = (Some x, s)"
    "internal s = Pending" "truthy x" "List.map_filter delivered (events s) = []"
    "requests (events s) \<noteq> [] \<longrightarrow> x = e"
    using lockProfile_try_remote_error [OF t r e] by blast
  then show ?thesis
    using thrown_in_try [of s x e]
    by (simp add: lockProfile_def split_beta Let_def results_fail_validation requests_fail_validation)
qed

lemma profileGuard_remote_error:
  assumes t: "\<And>req. transport env req = Decoded response"
    and r: "response_error response = Some e" and e: "truthy e"
  shows "results (profileGuard env c enable userID callback) = []
       \<and> (requests (events (profileGuard env c enable userID callback)) \<noteq> [] \<longrightarrow>
            reported (callback_or_default (snd (optional_params userID callback))) ''profileGuard'' e
              (profileGuard env c enable userID callback))"
proof -
  obtain x s where
    "profileGuard_try env c (callback_or_default (snd (optional_params userID callback))) enable
       (js_or (fst (optional_params userID callback)) (ctx_userID c)) init = (Some x, s)"
    "internal s = Pending" "truthy x" "List.map_filter delivered (events s) = []"
    "requests (events s) \<noteq> [] \<longrightarrow> x = e"
    using profileGuard_try_remote_error [OF t r e] by blast
  then show ?thesis
    using thrown_in_try [of s x e]
    by (simp add: profileGuard_def split_beta Let_def results_fail_validation requests_fail_validation)
qed

lemma reactPost_remote_error:
  assumes t: "\<And>req. transport env req = Decoded response"
    and r: "response_error response = Some e" and e: "truthy e"
  shows "results (reactPost env c postID reactionType callback) = []
       \<and> (requests (events (reactPost env c postID reactionType callback)) \<noteq> [] \<longrightarrow>
            reported (callback_or_default callback) ''reactPost'' e
              (reactPost env c postID reactionType callback))"
proof (cases "call_toUpperCase env reactionType")
  case None
  then show ?thesis
    by (simp add: reactPost_def Let_def results_fail_validation requests_fail_validation results_record)
next
  case (Some nr)
  show ?thesis
  proof (cases "map_of REACTION_TYPES nr")
    case None
    with Some show ?thesis
      by (simp add: reactPost_def Let_def results_fail_validation requests_fail_validation)
  next
    case (Some rv)
    obtain x s where
      "reactPost_try env c (callback_or_default callback) postID nr rv init = (Some x, s)"
      "internal s = Pending" "truthy x" "List.map_filter delivered (events s) = []"
      "requests (events s) \<noteq> [] \<longrightarrow> x = e"
      using reactPost_try_remote_error [OF t r e] by blast
    with Some \<open>call_toUpperCase env reactionType = Some nr\<close> show ?thesis
      using thrown_in_try [of s x e]
      by (simp add: reactPost_def Let_def results_fail_validation requests_fail_validation)
  qed
qed

text \<open>
  C1 (as amended). For \<open>reactPost\<close>, \<open>lockProfile\<close> and the second \<open>profileGuard\<close>: if the
  decoded response of the transport has a truthy \<open>error\<close> or \<open>errors\<close> field, no result is
  delivered, and, whenever a request was issued, the error
  \<open>new Error(response.error ? response.error : JSON.stringify(response.errors))\<close> is
  logged and handed to the callback in effect: it rejects the promise of the call when
  no callback was supplied, and it is the first argument of the call of a supplied
  callback. Its message is the server's \<open>error\<close> when that is a non-empty string, and the
  JSON text of \<open>errors\<close> when \<open>error\<close> is not truthy.
\<close>

theorem remote_error_reported:
  fixes envG :: "guard_result env" and envL :: "lock_result env" and envR :: "react_result env"
  assumes "\<And>req. transport envG req = Decoded response"
    and "\<And>req. transport envL req = Decoded response"
    and "\<And>req. transport envR req = Decoded response"
    and "get_field response ''error'' = Some error"
    and "get_field response ''errors'' = Some errors"
    and "truthy error \<or> truthy errors"
  shows "(results (profileGuard envG c enable userID callback) = []
          \<and> (requests (events (profileGuard envG c enable userID callback)) \<noteq> [] \<longrightarrow>
               reported (callback_or_default (snd (optional_params userID callback))) ''profileGuard''
                 (remote_error error errors) (profileGuard envG c enable userID callback)))
       \<and> (results (lockProfile envL c enable userID callback) = []
          \<and> (requests (events (lockProfile envL c enable userID callback)) \<noteq> [] \<longrightarrow>
               reported (callback_or_default (snd (optional_params userID callback))) ''lockProfile''
                 (remote_error error errors) (lockProfile envL c enable userID callback)))
       \<and> (results (reactPost envR c postID reactionType callback) = []
          \<and> (requests (events (reactPost envR c postID reactionType callback)) \<noteq> [] \<longrightarrow>
               reported (callback_or_default callback) ''reactPost''
                 (remote_error error errors) (reactPost envR c postID reactionType callback)))
       \<and> (\<forall>m. error = str m \<and> m \<noteq> [] \<longrightarrow> remote_error error errors = VError ''Error'' m)
       \<and> (\<forall>j. \<not> truthy error \<and> errors = VJson j \<longrightarrow>
              remote_error error errors = VError ''Error'' (JSON_stringify j))"
proof -
  note r = response_error_present [OF assms(4,5,6)]
  have m: "\<forall>m. error = str m \<and> m \<noteq> [] \<longrightarrow> remote_error error errors = VError ''Error'' m"
    by (simp add: remote_error_def new_Error_def)
  have j: "\<forall>j. \<not> truthy error \<and> errors = VJson j \<longrightarrow>
              remote_error error errors = VError ''Error'' (JSON_stringify j)"
    by (simp add: remote_error_def new_Error_def JSON_stringify_val_def)
  show ?thesis
    using profileGuard_remote_error [OF assms(1) r truthy_remote_error, of c enable userID callback]
      lockProfile_remote_error [OF assms(2) r truthy_remote_error, of c enable userID callback]
      reactPost_remote_error [OF assms(3) r truthy_remote_error, of c postID reactionType callback]
      m j
    by blast
qed



text \<open>
  The three operations on the response \<open>{errors: [{message: "boom"}]}\<close>, and
  \<open>reactPost\<close> with a callback on the response \<open>{error: "Not logged in."}\<close>.
\<close>

theorem remote_error_reported_witness:
  "results (profileGuard (example_env (Decoded (VJson (JObj [(''errors'', JArr [JObj [(''message'', JStr ''boom'')]])]))))
      example_ctx (VJson (JBool True)) VUndefined VUndefined) = []
   \<and> reported Wired ''profileGuard''
        (VError ''Error'' (JSON_stringify (JArr [JObj [(''message'', JStr ''boom'')]])))
        (profileGuard (example_env (Decoded (VJson (JObj [(''errors'', JArr [JObj [(''message'', JStr ''boom'')]])]))))
           example_ctx (VJson (JBool True)) VUndefined VUndefined)
   \<and> results (lockProfile (example_env (Decoded (VJson (JObj [(''errors'', JArr [JObj [(''message'', JStr ''boom'')]])]))))
      example_ctx (VJson (JBool True)) VUndefined VUndefined) = []
   \<and> reported Wired ''lockProfile''
        (VError ''Error'' (JSON_stringify (JArr [JObj [(''message'', JStr ''boom'')]])))
        (lockProfile (example_env (Decoded (VJson (JObj [(''errors'', JArr [JObj [(''message'', JStr ''boom'')]])]))))
           example_ctx (VJson (JBool True)) VUndefined VUndefined)
   \<and> results (reactPost (example_env (Decoded (VJson (JObj [(''errors'', JArr [JObj [(''message'', JStr ''boom'')]])]))))
      example_ctx (str ''1'') (str ''LIKE'') VUndefined) = []
   \<and> reported Wired ''reactPost''
        (VError ''Error'' (JSON_stringify (JArr [JObj [(''message'', JStr ''boom'')]])))
        (reactPost (example_env (Decoded (VJson (JObj [(''errors'', JArr [JObj [(''message'', JStr ''boom'')]])]))))
           example_ctx (str ''1'') (str ''LIKE'') VUndefined)
   \<and> reported (User ''cb'') ''reactPost'' (VError ''Error'' ''Not logged in.'')
        (reactPost (example_env (Decoded (VJson (JObj [(''error'', JStr ''Not logged in.'')]))))
           example_ctx (str ''1'') (str ''LIKE'') (VFun PlainFunction ''cb''))"
proof -
  let ?errors = "JArr [JObj [(''message'', JStr ''boom'')]]"
  let ?response = "VJson (JObj [(''errors'', ?errors)])"
  let ?e = "VError ''Error'' (JSON_stringify ?errors)"
  have transport: "\<And>req. transport (example_env (Decoded ?response)) req = Decoded ?response"
    by (simp add: example_env_def)
  note t = remote_error_reported [of "example_env (Decoded ?response)" ?response
      "example_env (Decoded ?response)" "example_env (Decoded ?response)" VUndefined "VJson ?errors"
      example_ctx "VJson (JBool True)" VUndefined VUndefined "str ''1''" "str ''LIKE''",
      OF transport transport transport]
  have fields: "get_field ?response ''error'' = Some VUndefined"
    "get_field ?response ''errors'' = Some (VJson ?errors)"
    "truthy VUndefined \<or> truthy (VJson ?errors)"
    by simp_all
  have e: "remote_error VUndefined (VJson ?errors) = ?e"
    using t [OF fields] by simp
  have cb: "callback_or_default (snd (optional_params VUndefined VUndefined)) = Wired"
    "callback_or_default VUndefined = Wired"
    by (simp_all add: optional_params_def callback_or_default_def)
  have sent:
    "requests (events (profileGuard (example_env (Decoded ?response)) example_ctx
        (VJson (JBool True)) VUndefined VUndefined)) \<noteq> []"
    "requests (events (lockProfile (example_env (Decoded ?response)) example_ctx
        (VJson (JBool True)) VUndefined VUndefined)) \<noteq> []"
    "requests (events (reactPost (example_env (Decoded ?response)) example_ctx
        (str ''1'') (str ''LIKE'') VUndefined)) \<noteq> []"
    by code_simp+
  let ?response' = "VJson (JObj [(''error'', JStr ''Not logged in.'')])"
  have transport': "\<And>req. transport (example_env (Decoded ?response')) req = Decoded ?response'"
    by (simp add: example_env_def)
  note t' = remote_error_reported [of "example_env (Decoded ?response')" ?response'
      "example_env (Decoded ?response')" "example_env (Decoded ?response')"
      "str ''Not logged in.''" VUndefined
      example_ctx "VJson (JBool True)" VUndefined "VFun PlainFunction ''cb''" "str ''1''"
      "str ''LIKE''", OF transport' transport' transport']
  have fields': "get_field ?response' ''error'' = Some (str ''Not logged in.'')"
    "get_field ?response' ''errors'' = Some VUndefined"
    "truthy (str ''Not logged in.'') \<or> truthy VUndefined"
    by simp_all
  have e': "remote_error (str ''Not logged in.'') VUndefined = VError ''Error'' ''Not logged in.''"
    using t' [OF fields'] by simp
  have cb': "callback_or_default (VFun PlainFunction ''cb'') = User ''cb''"
    by (simp add: callback_or_default_def)
  have sent': "requests (events (reactPost (example_env (Decoded ?response')) example_ctx
        (str ''1'') (str ''LIKE'') (VFun PlainFunction ''cb''))) \<noteq> []"
    by code_simp
  have last: "reported (User ''cb'') ''reactPost'' (VError ''Error'' ''Not logged in.'')
        (reactPost (example_env (Decoded ?response')) example_ctx (str ''1'') (str ''LIKE'')
           (VFun PlainFunction ''cb''))"
    using t' [OF fields'] sent' unfolding e' cb' by blast
  have first: "results (profileGuard (example_env (Decoded ?response)) example_ctx
        (VJson (JBool True)) VUndefined VUndefined) = []
   \<and> reported Wired ''profileGuard'' ?e
        (profileGuard (example_env (Decoded ?response)) example_ctx (VJson (JBool True))
           VUndefined VUndefined)
   \<and> results (lockProfile (example_env (Decoded ?response)) example_ctx
        (VJson (JBool True)) VUndefined VUndefined) = []
   \<and> reported Wired ''lockProfile'' ?e
        (lockProfile (example_env (Decoded ?response)) example_ctx (VJson (JBool True))
           VUndefined VUndefined)
   \<and> results (reactPost (example_env (Decoded ?response)) example_ctx
        (str ''1'') (str ''LIKE'') VUndefined) = []
   \<and> reported Wired ''reactPost'' ?e
        (reactPost (example_env (Decoded ?response)) example_ctx (str ''1'') (str ''LIKE'')
           VUndefined)"
    using t [OF fields] sent unfolding e cb by blast
  from first last show ?thesis by (simp only: simp_thms)
qed

text \<open>
  A response whose \<open>errors\<close> field is \<open>null\<close> counts as a success of \<open>reactPost\<close>, and
  the first \<open>profileGuard\<close>, which tests only the field \<open>err\<close>, calls its callback without
  an error on the response \<open>{errors: ["boom"]}\<close>.
\<close>

theorem remote_error_counterexample:
  "returned (reactPost (example_env (Decoded (VJson (JObj [(''data'', JObj []), (''errors'', JNull)]))))
      example_ctx (str ''1'') (str ''LIKE'') VUndefined) =
     Fulfilled (Res \<lparr>res_success = True, res_message = ''Reacted with LIKE successfully'',
       res_postID = str ''1'', res_reaction = ''LIKE'', res_reactionValue = 1\<rparr>)
   \<and> profileGuard_v1 (example_env (Decoded (VJson (JObj [(''errors'', JArr [JStr ''boom''])]))))
        example_ctx (VJson (JBool True)) (VFun PlainFunction ''cb'') =
       \<lparr>v1_events =
          [Post \<lparr>url = ''https://www.facebook.com/api/graphql'',
                 form = profileGuard_v1_form example_ctx (VJson (JBool True)), extra = None\<rparr>,
           Callback ''cb'' VUndefined None],
        v1_result = Promise (Fulfilled VUndefined)\<rparr>"
  by code_simp

section \<open>The requests that are built\<close>

lemma requests_invoke [simp]: "requests (events (snd (invoke env cb e d s))) = requests (events s)"
  by (cases cb) simp_all

lemma requests_finish: "requests (events (finish env cb who r)) = requests (events (snd r))"
proof (cases r)
  case (Pair t s)
  then show ?thesis
    by (cases t) (simp_all add: finish_def split_beta)
qed

lemma requests_succeed [simp]:
  "requests (events (snd (succeed env cb who m res s))) = requests (events s)"
  by (simp add: succeed_def split_beta split: completion.splits)

lemma requests_send [simp]: "requests (events (snd (send env req s))) = requests (events s) @ [req]"
  by (simp add: send_def split: response.splits)

lemma requests_and_then:
  assumes "\<And>s'. requests (events (snd (rest s'))) = requests (events s')"
  shows "requests (events (snd (and_then r rest))) = requests (events (snd r))"
proof (cases r)
  case (Pair t s)
  then show ?thesis
    using assms by (cases t) (simp_all add: and_then_def)
qed

lemma requests_lockProfile_try:
  "ToString target = Some t \<Longrightarrow>
   requests (events (snd (lockProfile_try env c cb enable target init))) =
     [\<lparr>url = ''https://www.facebook.com/api/graphql/'',
       form = lockProfile_form env c enable target, extra = None\<rparr>]"
  by (simp add: lockProfile_try_def Let_def requests_and_then)

lemma requests_reactPost_try:
  "requests (events (snd (reactPost_try env c cb postID nr rv init))) =
     (case reactPost_variables env c postID rv of
        None \<Rightarrow> []
      | Some variables \<Rightarrow>
          [\<lparr>url = ''https://www.facebook.com/api/graphql/'',
            form = reactPost_form variables, extra = None\<rparr>])"
proof (cases "reactPost_variables env c postID rv")
  case None
  then show ?thesis by (simp add: reactPost_try_def)
next
  case (Some variables)
  then obtain p where "ToString postID = Some p"
    by (auto simp: reactPost_variables_def feedback_id_def split: option.splits)
  with Some show ?thesis
    by (simp add: reactPost_try_def requests_and_then)
qed

text \<open>
  C6. For every call \<open>lockProfile(true, U)\<close> with an explicit target user \<open>U\<close> (a non-empty
  string) in a session whose current user is \<open>me\<close>, exactly one request is issued, and
  its payload carries \<open>user_id: U\<close> and \<open>actor_id: me\<close> as two separate fields.
\<close>

theorem lockProfile_target_and_actor:
  assumes "u \<noteq> []" and "ctx_userID c = str me"
  shows "requests (events (lockProfile env c (VJson (JBool True)) (str u) callback)) =
           [\<lparr>url = ''https://www.facebook.com/api/graphql/'',
             form =
               [(''fb_api_caller_class'', str ''RelayModern''),
                (''fb_api_req_friendly_name'', str ''ProfileCometSetProfileLockMutation''),
                (''variables'', str (JSON_stringify (JObj [(''input'', JObj
                   [(''is_locked'', JBool True),
                    (''user_id'', JStr u),
                    (''actor_id'', JStr me),
                    (''client_mutation_id'', JStr (offline_threading_id env 0))])]))),
                (''server_timestamps'', VJson (JBool True)),
                (''doc_id'', str ''5552698734782825'')],
             extra = None\<rparr>]"
proof -
  have target: "js_or (str u) (ctx_userID c) = str u"
    using assms(1) by (simp add: js_or_def)
  have form: "lockProfile_form env c (VJson (JBool True)) (str u) =
      [(''fb_api_caller_class'', str ''RelayModern''),
       (''fb_api_req_friendly_name'', str ''ProfileCometSetProfileLockMutation''),
       (''variables'', str (JSON_stringify (JObj [(''input'', JObj
          [(''is_locked'', JBool True),
           (''user_id'', JStr u),
           (''actor_id'', JStr me),
           (''client_mutation_id'', JStr (offline_threading_id env 0))])]))),
       (''server_timestamps'', VJson (JBool True)),
       (''doc_id'', str ''5552698734782825'')]"
    by (simp only: lockProfile_form_def lockProfile_variables_def obj_literal_def assms(2)
        List.map_filter_simps to_json.simps option.map prod.case option.case)
  have "requests (events (lockProfile env c (VJson (JBool True)) (str u) callback)) =
      requests (events (snd (lockProfile_try env c
        (callback_or_default callback) (VJson (JBool True)) (str u) init)))"
    using assms(1)
    by (simp add: lockProfile_def Let_def optional_params_other target requests_finish)
  also have "\<dots> = [\<lparr>url = ''https://www.facebook.com/api/graphql/'',
       form = lockProfile_form env c (VJson (JBool True)) (str u), extra = None\<rparr>]"
    by (rule requests_lockProfile_try) simp
  finally show ?thesis
    by (simp only: form)
qed

text \<open>
  The call \<open>lockProfile(true, "100012345678")\<close> in the concrete session.
\<close>

theorem lockProfile_target_and_actor_witness:
  "''100012345678'' \<noteq> [] \<and> ctx_userID example_ctx = str ''100000000000001''
   \<and> requests (events (lockProfile (example_env (Failed VUndefined)) example_ctx
        (VJson (JBool True)) (str ''100012345678'') VUndefined)) =
       [\<lparr>url = ''https://www.facebook.com/api/graphql/'',
         form =
           [(''fb_api_caller_class'', str ''RelayModern''),
            (''fb_api_req_friendly_name'', str ''ProfileCometSetProfileLockMutation''),
            (''variables'', str (JSON_stringify (JObj [(''input'', JObj
               [(''is_locked'', JBool True),
                (''user_id'', JStr ''100012345678''),
                (''actor_id'', JStr ''100000000000001''),
                (''client_mutation_id'',
                   JStr (offline_threading_id (example_env (Failed VUndefined) :: lock_result env) 0))])]))),
            (''server_timestamps'', VJson (JBool True)),
            (''doc_id'', str ''5552698734782825'')],
         extra = None\<rparr>]"
proof -
  have a: "''100012345678'' \<noteq> []" by simp
  have b: "ctx_userID example_ctx = str ''100000000000001''" by (simp add: example_ctx_def)
  show ?thesis
    by (intro conjI) (rule a, rule b, rule lockProfile_target_and_actor [OF a b])
qed


lemma toUpperCase_ascii: "ascii s \<Longrightarrow> toUpperCase env s = map upper_char s"
  by (simp add: toUpperCase_def)

lemma upper_love: "toUpperCase env ''love'' = ''LOVE''"
proof -
  have "ascii ''love''" and "map upper_char ''love'' = ''LOVE''"
    by code_simp+
  then show ?thesis
    by (simp only: toUpperCase_ascii)
qed

lemma upper_LOVE: "toUpperCase env ''LOVE'' = ''LOVE''"
proof -
  have "ascii ''LOVE''" and "map upper_char ''LOVE'' = ''LOVE''"
    by code_simp+
  then show ?thesis
    by (simp only: toUpperCase_ascii)
qed

lemma code_LOVE: "map_of REACTION_TYPES ''LOVE'' = Some 2"
  by (simp add: REACTION_TYPES_def)

lemma requests_reactPost_valid:
  assumes "truthy postID" and "s \<noteq> []" and "map_of REACTION_TYPES (toUpperCase env s) = Some rv"
  shows "requests (events (reactPost env c postID (str s) callback)) =
     (case reactPost_variables env c postID rv of
        None \<Rightarrow> []
      | Some variables \<Rightarrow>
          [\<lparr>url = ''https://www.facebook.com/api/graphql/'',
            form = reactPost_form variables, extra = None\<rparr>])"
  using assms by (simp add: reactPost_def Let_def requests_finish requests_reactPost_try)

lemma reactPost_variables_strings:
  assumes "ctx_userID c = str me"
  shows "reactPost_variables env c (str p) rv =
     Some (JObj [(''input'', JObj
       [(''attribution_id_v2'', JStr
           (''ProfileCometTimelineListViewRoot.react,comet.profile.timeline.list,unexpected,''
              @ dec_int (date_now env) @ '','' @ dec_nat (random_million env) @ '','' @ me @ '',,'')),
        (''feedback_id'', JStr (base64 (''feedback:'' @ p))),
        (''feedback_reaction'', JNum rv),
        (''feedback_source'', JStr ''PROFILE''),
        (''is_tracking_encrypted'', JBool False),
        (''tracking'', JArr []),
        (''session_id'', JStr (offline_threading_id env 0)),
        (''actor_id'', JStr me),
        (''client_mutation_id'', JStr (offline_threading_id env 1))])])"
  by (simp only: reactPost_variables_def attribution_id_v2_def feedback_id_def obj_literal_def
      assms ToString.simps to_string_json.simps List.map_filter_simps to_json.simps option.map
      prod.case option.case)

text \<open>
  C4. For every post identifier, \<open>reactPost(postID, "love")\<close> and
  \<open>reactPost(postID, "LOVE")\<close> behave alike under the same clock, random number and
  generated identifiers, and so build the same request: both reaction names become
  \<open>"LOVE"\<close>, whose code is \<open>2\<close>, and the request sent carries \<open>feedback_reaction: 2\<close>.
\<close>

theorem reactPost_case_insensitive:
  "reactPost env c postID (str ''love'') callback = reactPost env c postID (str ''LOVE'') callback
   \<and> call_toUpperCase env (str ''love'') = Some ''LOVE''
   \<and> call_toUpperCase env (str ''LOVE'') = Some ''LOVE''
   \<and> map_of REACTION_TYPES ''LOVE'' = Some 2
   \<and> (p \<noteq> [] \<and> ctx_userID c = str me \<longrightarrow>
        requests (events (reactPost env c (str p) (str ''love'') callback)) =
          [\<lparr>url = ''https://www.facebook.com/api/graphql/'',
            form =
              [(''fb_api_caller_class'', str ''RelayModern''),
               (''fb_api_req_friendly_name'', str ''CometUFIFeedbackReactMutation''),
               (''variables'', str (JSON_stringify (JObj [(''input'', JObj
                  [(''attribution_id_v2'', JStr
                      (''ProfileCometTimelineListViewRoot.react,comet.profile.timeline.list,unexpected,''
                         @ dec_int (date_now env) @ '','' @ dec_nat (random_million env) @ '',''
                         @ me @ '',,'')),
                   (''feedback_id'', JStr (base64 (''feedback:'' @ p))),
                   (''feedback_reaction'', JNum 2),
                   (''feedback_source'', JStr ''PROFILE''),
                   (''is_tracking_encrypted'', JBool False),
                   (''tracking'', JArr []),
                   (''session_id'', JStr (offline_threading_id env 0)),
                   (''actor_id'', JStr me),
                   (''client_mutation_id'', JStr (offline_threading_id env 1))])]))),
               (''server_timestamps'', VJson (JBool True)),
               (''doc_id'', str ''5803809346330346'')],
            extra = None\<rparr>])"
proof -
  have same: "reactPost env c postID (str ''love'') callback = reactPost env c postID (str ''LOVE'') callback"
    by (simp add: reactPost_def Let_def upper_love upper_LOVE cong: if_cong)
  have sent: "requests (events (reactPost env c (str p) (str ''love'') callback)) =
          [\<lparr>url = ''https://www.facebook.com/api/graphql/'',
            form = reactPost_form (JObj [(''input'', JObj
                  [(''attribution_id_v2'', JStr
                      (''ProfileCometTimelineListViewRoot.react,comet.profile.timeline.list,unexpected,''
                         @ dec_int (date_now env) @ '','' @ dec_nat (random_million env) @ '',''
                         @ me @ '',,'')),
                   (''feedback_id'', JStr (base64 (''feedback:'' @ p))),
                   (''feedback_reaction'', JNum 2),
                   (''feedback_source'', JStr ''PROFILE''),
                   (''is_tracking_encrypted'', JBool False),
                   (''tracking'', JArr []),
                   (''session_id'', JStr (offline_threading_id env 0)),
                   (''actor_id'', JStr me),
                   (''client_mutation_id'', JStr (offline_threading_id env 1))])]),
            extra = None\<rparr>]"
    if "p \<noteq> []" and "ctx_userID c = str me"
  proof -
    have h1: "truthy (str p)" using that(1) by simp
    have h2: "''love'' \<noteq> []" by simp
    have h3: "map_of REACTION_TYPES (toUpperCase env ''love'') = Some 2"
      by (simp only: upper_love code_LOVE)
    show ?thesis
      by (simp only: requests_reactPost_valid [OF h1 h2 h3]
          reactPost_variables_strings [OF that(2)] option.case)
  qed
  show ?thesis
    using same sent by (simp add: upper_love upper_LOVE code_LOVE reactPost_form_def)
qed


text \<open>
  The request of \<open>reactPost("1", "love")\<close> in the concrete session.
\<close>

theorem reactPost_case_insensitive_witness:
  "requests (events (reactPost (example_env (Failed VUndefined)) example_ctx (str ''1'') (str ''love'') VUndefined)) =
     requests (events (reactPost (example_env (Failed VUndefined)) example_ctx (str ''1'') (str ''LOVE'') VUndefined))
   \<and> requests (events (reactPost (example_env (Failed VUndefined)) example_ctx (str ''1'') (str ''love'') VUndefined)) =
          [\<lparr>url = ''https://www.facebook.com/api/graphql/'',
            form =
              [(''fb_api_caller_class'', str ''RelayModern''),
               (''fb_api_req_friendly_name'', str ''CometUFIFeedbackReactMutation''),
               (''variables'', str (JSON_stringify (JObj [(''input'', JObj
                  [(''attribution_id_v2'', JStr
                      ''ProfileCometTimelineListViewRoot.react,comet.profile.timeline.list,unexpected,0,0,100000000000001,,''),
                   (''feedback_id'', JStr ''ZmVlZGJhY2s6MQ==''),
                   (''feedback_reaction'', JNum 2),
                   (''feedback_source'', JStr ''PROFILE''),
                   (''is_tracking_encrypted'', JBool False),
                   (''tracking'', JArr []),
                   (''session_id'', JStr ''0''),
                   (''actor_id'', JStr ''100000000000001''),
                   (''client_mutation_id'', JStr ''0'')])]))),
               (''server_timestamps'', VJson (JBool True)),
               (''doc_id'', str ''5803809346330346'')],
            extra = None\<rparr>]"
proof -
  let ?env = "example_env (Failed VUndefined) :: react_result env"
  note t = reactPost_case_insensitive [of ?env example_ctx "str ''1''" VUndefined "''1''"
      "''100000000000001''"]
  have a: "''1'' \<noteq> [] \<and> ctx_userID example_ctx = str ''100000000000001''"
    by (simp add: example_ctx_def)
  have vals: "date_now ?env = 0" "random_million ?env = 0"
    "offline_threading_id ?env 0 = ''0''" "offline_threading_id ?env 1 = ''0''"
    by (simp_all add: example_env_def)
  have texts:
    "''ProfileCometTimelineListViewRoot.react,comet.profile.timeline.list,unexpected,''
       @ dec_int 0 @ '','' @ dec_nat 0 @ '','' @ ''100000000000001'' @ '',,''
     = ''ProfileCometTimelineListViewRoot.react,comet.profile.timeline.list,unexpected,0,0,100000000000001,,''"
    "base64 (''feedback:'' @ ''1'') = ''ZmVlZGJhY2s6MQ==''"
    by code_simp+
  have same: "requests (events (reactPost ?env example_ctx (str ''1'') (str ''love'') VUndefined)) =
     requests (events (reactPost ?env example_ctx (str ''1'') (str ''LOVE'') VUndefined))"
    using t by (simp only:)
  have sent: "requests (events (reactPost ?env example_ctx (str ''1'') (str ''love'') VUndefined)) =
          [\<lparr>url = ''https://www.facebook.com/api/graphql/'',
            form =
              [(''fb_api_caller_class'', str ''RelayModern''),
               (''fb_api_req_friendly_name'', str ''CometUFIFeedbackReactMutation''),
               (''variables'', str (JSON_stringify (JObj [(''input'', JObj
                  [(''attribution_id_v2'', JStr
                      (''ProfileCometTimelineListViewRoot.react,comet.profile.timeline.list,unexpected,''
                         @ dec_int (date_now ?env) @ '','' @ dec_nat (random_million ?env) @ '',''
                         @ ''100000000000001'' @ '',,'')),
                   (''feedback_id'', JStr (base64 (''feedback:'' @ ''1''))),
                   (''feedback_reaction'', JNum 2),
                   (''feedback_source'', JStr ''PROFILE''),
                   (''is_tracking_encrypted'', JBool False),
                   (''tracking'', JArr []),
                   (''session_id'', JStr (offline_threading_id ?env 0)),
                   (''actor_id'', JStr ''100000000000001''),
                   (''client_mutation_id'', JStr (offline_threading_id ?env 1))])]))),
               (''server_timestamps'', VJson (JBool True)),
               (''doc_id'', str ''5803809346330346'')],
            extra = None\<rparr>]"
    using t a by blast
  show ?thesis
    using same sent unfolding vals texts by (rule conjI)
qed

section \<open>The results that are delivered\<close>

lemma deliveries_init [simp]: "deliveries init = []"
  by (simp add: deliveries_def)

lemma deliveries_emit [simp]:
  "deliveries (emit e s) =
     List.map_filter delivered (events s) @ (case delivered e of None \<Rightarrow> [] | Some r \<Rightarrow> [r])
       @ fulfilment (internal s)"
  by (simp add: deliveries_def List.map_filter_def split: option.splits)

lemma deliveries_invoke:
  "set (deliveries (snd (invoke env cb e d s))) \<subseteq> set (deliveries s) \<union> set_option d"
  by (cases cb; cases d) (auto simp: deliveries_def List.map_filter_def)

lemma deliveries_send [simp]: "set (deliveries (snd (send env req s))) = set (deliveries s)"
  by (auto simp: send_def deliveries_def split: response.splits)

lemma deliveries_succeed:
  "set (deliveries (snd (succeed env cb who m res s))) \<subseteq> set (deliveries s) \<union> {res}"
proof -
  have "set (deliveries (snd (invoke env cb null (Some res) (emit (Log who m) s))))
      \<subseteq> set (deliveries (emit (Log who m) s)) \<union> {res}"
    using deliveries_invoke [of env cb null "Some res" "emit (Log who m) s"] by simp
  moreover have "set (deliveries (emit (Log who m) s)) = set (deliveries s)"
    by (auto simp: deliveries_def)
  ultimately show ?thesis
    by (simp add: succeed_def split_beta split: completion.splits)
qed

lemma deliveries_and_then:
  assumes "\<And>s'. set (deliveries (snd (rest s'))) \<subseteq> set (deliveries s') \<union> X"
  shows "set (deliveries (snd (and_then r rest))) \<subseteq> set (deliveries (snd r)) \<union> X"
proof (cases r)
  case (Pair t s)
  then show ?thesis
    using assms [of s] by (cases t) (simp_all add: and_then_def)
qed

lemma results_finish: "set (results (finish env cb who r)) \<subseteq> set (deliveries (snd r))"
proof (cases r)
  case (Pair t s)
  show ?thesis
  proof (cases t)
    case None
    with Pair show ?thesis
      by (auto simp: finish_def results_def deliveries_def)
  next
    case (Some e)
    obtain c s' where i: "invoke env cb e None (emit (ErrorLog who e) s) = (c, s')"
      by (cases "invoke env cb e None (emit (ErrorLog who e) s)")
    have "set (deliveries s') \<subseteq> set (deliveries (emit (ErrorLog who e) s))"
      using deliveries_invoke [of env cb e None "emit (ErrorLog who e) s"] i by simp
    moreover have "set (deliveries (emit (ErrorLog who e) s)) = set (deliveries s)"
      by (auto simp: deliveries_def)
    moreover have "set (results (finish env cb who r)) \<subseteq> set (deliveries s')"
      using Pair Some i by (cases c) (auto simp: finish_def results_def deliveries_def)
    ultimately show ?thesis
      using Pair by auto
  qed
qed

lemma deliveries_reactPost_try:
  "set (deliveries (snd (reactPost_try env c cb postID nr rv init)))
     \<subseteq> {reactPost_result postID nr rv}"
proof (cases "reactPost_variables env c postID rv")
  case None
  then show ?thesis by (simp add: reactPost_try_def)
next
  case v: (Some variables)
  show ?thesis
  proof (cases "ToString postID")
    case None
    with v show ?thesis by (simp add: reactPost_try_def)
  next
    case (Some post)
    with v show ?thesis
      using deliveries_and_then [where X = "{reactPost_result postID nr rv}", OF deliveries_succeed]
      by (fastforce simp: reactPost_try_def)
  qed
qed

lemma NONE_is_zero: "map_of REACTION_TYPES nr = Some rv \<Longrightarrow> rv = 0 \<longleftrightarrow> nr = ''NONE''"
  by (auto simp: REACTION_TYPES_def split: if_splits)

lemma reactPost_try_valid:
  assumes t: "\<And>req. transport env req = Decoded response"
    and ok: "response_error response = None"
    and me: "ctx_userID c = str me"
  shows "reactPost_try env c cb (str p) nr code init =
      succeed env cb ''reactPost'' (res_message (reactPost_result (str p) nr code))
        (reactPost_result (str p) nr code)
        \<lparr>events =
           [Log ''reactPost''
              ((if code = 0 then ''Removing reaction from'' else ''Adding '' @ nr @ '' to'')
                 @ '' post '' @ p),
            Post \<lparr>url = ''https://www.facebook.com/api/graphql/'',
                  form = reactPost_form (the (reactPost_variables env c (str p) code)),
                  extra = None\<rparr>],
         internal = Pending\<rparr>"
  by (simp add: reactPost_try_def reactPost_variables_strings [OF me] send_Decoded [OF t] ok
      and_then_def emit_def init_def)

lemma finish_succeed_Wired:
  "internal s = Pending \<Longrightarrow>
   returned (finish env Wired who (succeed env Wired who m res s)) = Fulfilled (Res res)"
  by (simp add: succeed_def finish_def)

lemma finish_succeed_User:
  assumes "List.map_filter delivered (events s) = []"
  shows "Callback f null (Some res) \<in> set (events (finish env (User f) who (succeed env (User f) who m res s)))
       \<and> List.map_filter delivered (events (finish env (User f) who (succeed env (User f) who m res s)))
           = [res]"
  using assms
  by (cases "behave env f null (Some res)") (simp_all add: succeed_def finish_def)

lemma reactPost_success:
  assumes t: "\<And>req. transport env req = Decoded response"
    and ok: "response_error response = None"
    and p: "p \<noteq> []" and s: "s \<noteq> []"
    and code: "map_of REACTION_TYPES (toUpperCase env s) = Some code"
    and me: "ctx_userID c = str me"
  shows "case callback_or_default callback of
           Wired \<Rightarrow>
             returned (reactPost env c (str p) (str s) callback) =
               Fulfilled (Res (reactPost_result (str p) (toUpperCase env s) code))
         | User f \<Rightarrow>
             Callback f null (Some (reactPost_result (str p) (toUpperCase env s) code))
               \<in> set (events (reactPost env c (str p) (str s) callback))
             \<and> List.map_filter delivered (events (reactPost env c (str p) (str s) callback)) =
                 [reactPost_result (str p) (toUpperCase env s) code]
         | _ \<Rightarrow> True"
proof -
  let ?cb = "callback_or_default callback"
  let ?res = "reactPost_result (str p) (toUpperCase env s) code"
  let ?s = "\<lparr>events =
           [Log ''reactPost''
              ((if code = 0 then ''Removing reaction from''
                else ''Adding '' @ toUpperCase env s @ '' to'') @ '' post '' @ p),
            Post \<lparr>url = ''https://www.facebook.com/api/graphql/'',
                  form = reactPost_form (the (reactPost_variables env c (str p) code)),
                  extra = None\<rparr>],
         internal = Pending\<rparr> :: react_result st"
  have run: "reactPost env c (str p) (str s) callback =
      finish env ?cb ''reactPost'' (succeed env ?cb ''reactPost'' (res_message ?res) ?res ?s)"
    using p s code by (simp add: reactPost_def Let_def reactPost_try_valid [OF t ok me])
  have clean: "internal ?s = Pending" "List.map_filter delivered (events ?s) = []"
    by (simp_all add: List.map_filter_simps)
  show ?thesis
  proof (cases ?cb)
    case Wired
    then show ?thesis
      using finish_succeed_Wired [OF clean(1), where env = env and who = "''reactPost''"
          and m = "res_message ?res" and res = ?res]
      by (simp only: run callee.case)
  next
    case (User f)
    then show ?thesis
      using finish_succeed_User [OF clean(2), where f = f and res = ?res and env = env
          and who = "''reactPost''" and m = "res_message ?res"]
      by (simp only: run callee.case)
  qed simp_all
qed

text \<open>
  C7. Every result that a call of \<open>reactPost\<close> delivers, to the callback or to a promise,
  is \<open>{success: true, postID, reaction, reactionValue, message}\<close>, where \<open>reaction\<close> is the
  reaction type in upper case, \<open>reactionValue\<close> its code in \<open>REACTION_TYPES\<close> (\<open>0\<close> exactly
  for \<open>NONE\<close>), and \<open>message\<close> says that the reaction was removed when the code is \<open>0\<close> and
  \<open>Reacted with <name> successfully\<close> otherwise. And a call with a post identifier and a
  session user that are strings and a valid reaction type, whose response passes the
  check for errors, does deliver that result: the callback supplied by the caller is
  called with \<open>(null, result)\<close>, which is the only result it receives, and without a
  callback the promise of the caller is fulfilled with the result.
\<close>

theorem reactPost_result_shape:
  "(r \<in> set (results (reactPost env c postID reactionType callback)) \<longrightarrow>
      (\<exists>s code. reactionType = str s
           \<and> map_of REACTION_TYPES (toUpperCase env s) = Some code
           \<and> (code = 0 \<longleftrightarrow> toUpperCase env s = ''NONE'')
           \<and> r = \<lparr>res_success = True,
                   res_message =
                     (if code = 0 then ''Reaction removed successfully''
                      else ''Reacted with '' @ toUpperCase env s @ '' successfully''),
                   res_postID = postID,
                   res_reaction = toUpperCase env s,
                   res_reactionValue = code\<rparr>))
   \<and> ((\<forall>req. transport env req = Decoded response) \<and> response_error response = None
        \<and> p \<noteq> [] \<and> n \<noteq> [] \<and> map_of REACTION_TYPES (toUpperCase env n) = Some v
        \<and> ctx_userID c = str me \<longrightarrow>
      (case callback_or_default callback of
         Wired \<Rightarrow>
           returned (reactPost env c (str p) (str n) callback) =
             Fulfilled (Res \<lparr>res_success = True,
                   res_message =
                     (if v = 0 then ''Reaction removed successfully''
                      else ''Reacted with '' @ toUpperCase env n @ '' successfully''),
                   res_postID = str p,
                   res_reaction = toUpperCase env n,
                   res_reactionValue = v\<rparr>)
       | User f \<Rightarrow>
           Callback f null (Some \<lparr>res_success = True,
                   res_message =
                     (if v = 0 then ''Reaction removed successfully''
                      else ''Reacted with '' @ toUpperCase env n @ '' successfully''),
                   res_postID = str p,
                   res_reaction = toUpperCase env n,
                   res_reactionValue = v\<rparr>)
             \<in> set (events (reactPost env c (str p) (str n) callback))
           \<and> List.map_filter delivered (events (reactPost env c (str p) (str n) callback)) =
               [\<lparr>res_success = True,
                   res_message =
                     (if v = 0 then ''Reaction removed successfully''
                      else ''Reacted with '' @ toUpperCase env n @ '' successfully''),
                   res_postID = str p,
                   res_reaction = toUpperCase env n,
                   res_reactionValue = v\<rparr>]
       | _ \<Rightarrow> True))"
proof (intro conjI impI)
  assume r: "r \<in> set (results (reactPost env c postID reactionType callback))"
  show "\<exists>s code. reactionType = str s
           \<and> map_of REACTION_TYPES (toUpperCase env s) = Some code
           \<and> (code = 0 \<longleftrightarrow> toUpperCase env s = ''NONE'')
           \<and> r = \<lparr>res_success = True,
                   res_message =
                     (if code = 0 then ''Reaction removed successfully''
                      else ''Reacted with '' @ toUpperCase env s @ '' successfully''),
                   res_postID = postID,
                   res_reaction = toUpperCase env s,
                   res_reactionValue = code\<rparr>"
  proof (cases "call_toUpperCase env reactionType")
    case None
    with r show ?thesis
      by (simp add: reactPost_def Let_def results_fail_validation results_record split: if_splits)
  next
    case (Some nr)
    then obtain s where s: "reactionType = str s" "nr = toUpperCase env s"
      by (cases "(env, reactionType)" rule: call_toUpperCase.cases) auto
    show ?thesis
    proof (cases "map_of REACTION_TYPES nr")
      case None
      with r Some show ?thesis
        by (simp add: reactPost_def Let_def results_fail_validation split: if_splits)
    next
      case code: (Some code)
      have "r \<in> set (results (finish env (callback_or_default callback) ''reactPost''
          (reactPost_try env c (callback_or_default callback) postID nr code init)))"
        using r Some code
        by (simp add: reactPost_def Let_def results_fail_validation split: if_splits)
      then have "r = reactPost_result postID nr code"
        using results_finish deliveries_reactPost_try by fastforce
      with s code NONE_is_zero [OF code] show ?thesis
        by (simp add: reactPost_result_def)
    qed
  qed
next
  assume a: "(\<forall>req. transport env req = Decoded response) \<and> response_error response = None
        \<and> p \<noteq> [] \<and> n \<noteq> [] \<and> map_of REACTION_TYPES (toUpperCase env n) = Some v
        \<and> ctx_userID c = str me"
  then have t: "\<And>req. transport env req = Decoded response"
    and rest: "response_error response = None" "p \<noteq> []" "n \<noteq> []"
      "map_of REACTION_TYPES (toUpperCase env n) = Some v" "ctx_userID c = str me"
    by simp_all
  show "(case callback_or_default callback of
         Wired \<Rightarrow>
           returned (reactPost env c (str p) (str n) callback) =
             Fulfilled (Res \<lparr>res_success = True,
                   res_message =
                     (if v = 0 then ''Reaction removed successfully''
                      else ''Reacted with '' @ toUpperCase env n @ '' successfully''),
                   res_postID = str p,
                   res_reaction = toUpperCase env n,
                   res_reactionValue = v\<rparr>)
       | User f \<Rightarrow>
           Callback f null (Some \<lparr>res_success = True,
                   res_message =
                     (if v = 0 then ''Reaction removed successfully''
                      else ''Reacted with '' @ toUpperCase env n @ '' successfully''),
                   res_postID = str p,
                   res_reaction = toUpperCase env n,
                   res_reactionValue = v\<rparr>)
             \<in> set (events (reactPost env c (str p) (str n) callback))
           \<and> List.map_filter delivered (events (reactPost env c (str p) (str n) callback)) =
               [\<lparr>res_success = True,
                   res_message =
                     (if v = 0 then ''Reaction removed successfully''
                      else ''Reacted with '' @ toUpperCase env n @ '' successfully''),
                   res_postID = str p,
                   res_reaction = toUpperCase env n,
                   res_reactionValue = v\<rparr>]
       | _ \<Rightarrow> True)"
    using reactPost_success [OF t rest, of callback]
    unfolding reactPost_result_def .
qed

text \<open>
  The calls \<open>reactPost("1", "love")\<close> and \<open>reactPost("1", "none")\<close> without callback and
  \<open>reactPost("1", "love", cb)\<close> on a response without error; and the reaction type
  written with a dotless i in place of the i of \<open>like\<close>, whose upper case is \<open>LIKE\<close>.
\<close>

theorem reactPost_result_shape_witness:
  "returned (reactPost (example_env (Decoded (VJson (JObj [(''data'', JObj [])])))) example_ctx (str ''1'') (str ''love'') VUndefined) =
     Fulfilled (Res \<lparr>res_success = True, res_message = ''Reacted with LOVE successfully'',
       res_postID = str ''1'', res_reaction = ''LOVE'', res_reactionValue = 2\<rparr>)
   \<and> returned (reactPost (example_env (Decoded (VJson (JObj [(''data'', JObj [])])))) example_ctx (str ''1'') (str ''none'') VUndefined) =
     Fulfilled (Res \<lparr>res_success = True, res_message = ''Reaction removed successfully'',
       res_postID = str ''1'', res_reaction = ''NONE'', res_reactionValue = 0\<rparr>)
   \<and> Callback ''cb'' null (Some \<lparr>res_success = True, res_message = ''Reacted with LOVE successfully'',
       res_postID = str ''1'', res_reaction = ''LOVE'', res_reactionValue = 2\<rparr>)
       \<in> set (events (reactPost (example_env (Decoded (VJson (JObj [(''data'', JObj [])])))) example_ctx (str ''1'') (str ''love'')
            (VFun PlainFunction ''cb'')))
   \<and> List.map_filter delivered (events (reactPost (example_env (Decoded (VJson (JObj [(''data'', JObj [])])))) example_ctx (str ''1'') (str ''love'')
        (VFun PlainFunction ''cb''))) = [\<lparr>res_success = True, res_message = ''Reacted with LOVE successfully'',
       res_postID = str ''1'', res_reaction = ''LOVE'', res_reactionValue = 2\<rparr>]
   \<and> returned (reactPost (example_env (Decoded (VJson (JObj [(''data'', JObj [])])))) example_ctx (str ''1'') (str [CHR ''l'', CHR 0xC4, CHR 0xB1, CHR ''k'', CHR ''e'']) VUndefined) =
     Fulfilled (Res \<lparr>res_success = True, res_message = ''Reacted with LIKE successfully'',
       res_postID = str ''1'', res_reaction = ''LIKE'', res_reactionValue = 1\<rparr>)
   \<and> (\<exists>s code. str ''love'' = str s
           \<and> map_of REACTION_TYPES (toUpperCase (example_env (Decoded (VJson (JObj [(''data'', JObj [])]))) :: react_result env) s) = Some code
           \<and> (code = 0 \<longleftrightarrow> toUpperCase (example_env (Decoded (VJson (JObj [(''data'', JObj [])]))) :: react_result env) s = ''NONE'')
           \<and> \<lparr>res_success = True, res_message = ''Reacted with LOVE successfully'',
       res_postID = str ''1'', res_reaction = ''LOVE'', res_reactionValue = 2\<rparr> = \<lparr>res_success = True,
                   res_message =
                     (if code = 0 then ''Reaction removed successfully''
                      else ''Reacted with '' @ toUpperCase (example_env (Decoded (VJson (JObj [(''data'', JObj [])]))) :: react_result env) s @ '' successfully''),
                   res_postID = str ''1'',
                   res_reaction = toUpperCase (example_env (Decoded (VJson (JObj [(''data'', JObj [])]))) :: react_result env) s,
                   res_reactionValue = code\<rparr>)"
proof -
  let ?response = "VJson (JObj [(''data'', JObj [])])"
  let ?env = "example_env (Decoded (VJson (JObj [(''data'', JObj [])]))) :: react_result env"
  let ?love = "\<lparr>res_success = True, res_message = ''Reacted with LOVE successfully'',
       res_postID = str ''1'', res_reaction = ''LOVE'', res_reactionValue = 2\<rparr>"
  let ?none = "\<lparr>res_success = True, res_message = ''Reaction removed successfully'',
       res_postID = str ''1'', res_reaction = ''NONE'', res_reactionValue = 0\<rparr>"
  let ?like = "\<lparr>res_success = True, res_message = ''Reacted with LIKE successfully'',
       res_postID = str ''1'', res_reaction = ''LIKE'', res_reactionValue = 1\<rparr>"
  have m: "?love \<in> set (results (reactPost ?env example_ctx (str ''1'') (str ''love'') VUndefined))"
    by code_simp
  have ups: "toUpperCase ?env ''love'' = ''LOVE''" "toUpperCase ?env ''none'' = ''NONE''"
    "toUpperCase ?env [CHR ''l'', CHR 0xC4, CHR 0xB1, CHR ''k'', CHR ''e''] = ''LIKE''"
    by code_simp+
  have codes: "map_of REACTION_TYPES ''LOVE'' = Some 2" "map_of REACTION_TYPES ''NONE'' = Some 0"
    "map_of REACTION_TYPES ''LIKE'' = Some 1"
    by code_simp+
  have env: "\<forall>req. transport ?env req = Decoded ?response"
    "response_error ?response = None" "ctx_userID example_ctx = str ''100000000000001''"
    by (simp_all add: example_env_def example_ctx_def response_error_def)
  have cbs: "callback_or_default VUndefined = Wired"
    "callback_or_default (VFun PlainFunction ''cb'') = User ''cb''"
    by (simp_all add: callback_or_default_def)
  have ifs: "((2::int) = 0) = False" "((0::int) = 0) = True" "((1::int) = 0) = False"
    by simp_all
  have pre1: "(\<forall>req. transport ?env req = Decoded ?response) \<and> response_error ?response = None
      \<and> ''1'' \<noteq> [] \<and> ''love'' \<noteq> [] \<and> map_of REACTION_TYPES (toUpperCase ?env ''love'') = Some 2
      \<and> ctx_userID example_ctx = str ''100000000000001''"
    using env by (simp add: ups codes)
  have pre2: "(\<forall>req. transport ?env req = Decoded ?response) \<and> response_error ?response = None
      \<and> ''1'' \<noteq> [] \<and> ''none'' \<noteq> [] \<and> map_of REACTION_TYPES (toUpperCase ?env ''none'') = Some 0
      \<and> ctx_userID example_ctx = str ''100000000000001''"
    using env by (simp add: ups codes)
  have pre3: "(\<forall>req. transport ?env req = Decoded ?response) \<and> response_error ?response = None
      \<and> ''1'' \<noteq> [] \<and> [CHR ''l'', CHR 0xC4, CHR 0xB1, CHR ''k'', CHR ''e''] \<noteq> []
      \<and> map_of REACTION_TYPES (toUpperCase ?env [CHR ''l'', CHR 0xC4, CHR 0xB1, CHR ''k'', CHR ''e'']) = Some 1
      \<and> ctx_userID example_ctx = str ''100000000000001''"
    using env by (simp add: ups codes)
  have 1: "returned (reactPost ?env example_ctx (str ''1'') (str ''love'') VUndefined) =
      Fulfilled (Res ?love)"
    using reactPost_result_shape [where env = ?env and c = example_ctx and callback = VUndefined
        and response = ?response and p = "''1''" and n = "''love''" and v = 2
        and me = "''100000000000001''", THEN conjunct2, THEN mp, OF pre1]
    by (simp only: cbs callee.case ups ifs if_False append.simps)
  have 2: "returned (reactPost ?env example_ctx (str ''1'') (str ''none'') VUndefined) =
      Fulfilled (Res ?none)"
    using reactPost_result_shape [where env = ?env and c = example_ctx and callback = VUndefined
        and response = ?response and p = "''1''" and n = "''none''" and v = 0
        and me = "''100000000000001''", THEN conjunct2, THEN mp, OF pre2]
    by (simp only: cbs callee.case ups ifs if_True)
  have 3: "Callback ''cb'' null (Some ?love)
       \<in> set (events (reactPost ?env example_ctx (str ''1'') (str ''love'')
            (VFun PlainFunction ''cb'')))
     \<and> List.map_filter delivered (events (reactPost ?env example_ctx (str ''1'') (str ''love'')
        (VFun PlainFunction ''cb''))) = [?love]"
    using reactPost_result_shape [where env = ?env and c = example_ctx
        and callback = "VFun PlainFunction ''cb''"
        and response = ?response and p = "''1''" and n = "''love''" and v = 2
        and me = "''100000000000001''", THEN conjunct2, THEN mp, OF pre1]
    by (simp only: cbs callee.case ups ifs if_False append.simps)
  have 4: "returned (reactPost ?env example_ctx (str ''1'') (str [CHR ''l'', CHR 0xC4, CHR 0xB1, CHR ''k'', CHR ''e'']) VUndefined) =
      Fulfilled (Res ?like)"
    using reactPost_result_shape [where env = ?env and c = example_ctx and callback = VUndefined
        and response = ?response and p = "''1''" and n = "[CHR ''l'', CHR 0xC4, CHR 0xB1, CHR ''k'', CHR ''e'']" and v = 1
        and me = "''100000000000001''", THEN conjunct2, THEN mp, OF pre3]
    by (simp only: cbs callee.case ups ifs if_False append.simps)
  have 5: "\<exists>s code. str ''love'' = str s
           \<and> map_of REACTION_TYPES (toUpperCase ?env s) = Some code
           \<and> (code = 0 \<longleftrightarrow> toUpperCase ?env s = ''NONE'')
           \<and> ?love = \<lparr>res_success = True,
                   res_message =
                     (if code = 0 then ''Reaction removed successfully''
                      else ''Reacted with '' @ toUpperCase ?env s @ '' successfully''),
                   res_postID = str ''1'',
                   res_reaction = toUpperCase ?env s,
                   res_reactionValue = code\<rparr>"
    by (rule reactPost_result_shape [where r = ?love and env = ?env and c = example_ctx
        and postID = "str ''1''" and reactionType = "str ''love''" and callback = VUndefined,
        THEN conjunct1, THEN mp, OF m])
  from 1 2 3 4 5 show ?thesis by (intro conjI) (simp_all only: simp_thms)
qed

section \<open>Failures of the local checks\<close>

text \<open>
  C10. For every reaction type that is truthy and not a string (the number \<open>2\<close>, say), in a
  call whose post identifier passes its own check, \<open>reactPost\<close> raises a \<open>TypeError\<close> from
  \<open>reactionType.toUpperCase()\<close> before the \<open>try\<close> block: nothing is logged, the callback
  is not called, \<open>returnPromise\<close> stays pending, and the error surfaces only as the
  rejection of the async function's own promise.
\<close>

theorem reactPost_non_string_reaction_type:
  assumes "truthy postID" and "truthy reactionType" and "getType reactionType \<noteq> ''String''"
  shows "reactPost env c postID reactionType callback =
           \<lparr>events = [], internal = Pending,
            returned = Rejected (VError ''TypeError'' ''reactionType.toUpperCase is not a function'')\<rparr>"
proof -
  have "call_toUpperCase env reactionType = None"
    using assms(3)
    by (cases "(env, reactionType)" rule: call_toUpperCase.cases) simp_all
  with assms(1,2) show ?thesis
    by (simp add: reactPost_def)
qed

text \<open>
  The call \<open>reactPost("1", 2)\<close>.
\<close>

theorem reactPost_non_string_reaction_type_witness:
  "truthy (str ''1'') \<and> truthy (VJson (JNum 2)) \<and> getType (VJson (JNum 2)) \<noteq> ''String''
   \<and> reactPost (example_env (Failed VUndefined)) example_ctx (str ''1'') (VJson (JNum 2)) VUndefined =
       \<lparr>events = [], internal = Pending,
        returned = Rejected (VError ''TypeError'' ''reactionType.toUpperCase is not a function'')\<rparr>"
proof -
  have a: "truthy (str ''1'')" by simp
  have b: "truthy (VJson (JNum 2))" by simp
  have c: "getType (VJson (JNum 2)) \<noteq> ''String''" by simp
  show ?thesis
    by (intro conjI) (rule a, rule b, rule c, rule reactPost_non_string_reaction_type [OF a b c])
qed

lemma reaction_names:
  "join '', '' (map fst REACTION_TYPES) = ''LIKE, LOVE, CARE, HAHA, WOW, SAD, ANGRY, NONE''"
  by (simp add: REACTION_TYPES_def)

lemma fail_validation_lost:
  "fail_validation env Wired who (VError ''Error'' message) init = validation_error_lost who message"
  by (simp add: fail_validation_Wired validation_error_lost_def)

text \<open>
  C9. In \<open>reactPost\<close>, the second \<open>profileGuard\<close> and \<open>lockProfile\<close>, when no callback is
  supplied and a local validation check fails, the function returns what the default
  callback returns (\<open>undefined\<close>) instead of \<open>returnPromise\<close>: the validation error is
  logged and rejects \<open>returnPromise\<close>, and the promise that the caller receives is
  fulfilled with \<open>undefined\<close>.
\<close>

theorem validation_failure_without_callback:
  assumes "\<not> truthy callback"
  shows "(\<not> truthy postID \<longrightarrow>
            reactPost envR c postID reactionType callback =
              validation_error_lost ''reactPost'' ''reactPost: Post ID is required'')
       \<and> (truthy postID \<and> \<not> truthy reactionType \<longrightarrow>
            reactPost envR c postID reactionType callback =
              validation_error_lost ''reactPost'' ''reactPost: Reaction type is required'')
       \<and> (truthy postID \<and> s \<noteq> [] \<and> map_of REACTION_TYPES (toUpperCase envR s) = None \<longrightarrow>
            reactPost envR c postID (str s) callback =
              validation_error_lost ''reactPost''
                ''reactPost: Invalid reaction type. Must be one of: LIKE, LOVE, CARE, HAHA, WOW, SAD, ANGRY, NONE'')
       \<and> (getType userID \<noteq> ''Function'' \<and> getType userID \<noteq> ''AsyncFunction''
            \<and> \<not> is_boolean enable \<longrightarrow>
            profileGuard envG c enable userID callback =
              validation_error_lost ''profileGuard''
                ''profileGuard: First parameter must be a boolean (true to enable, false to disable)''
          \<and> lockProfile envL c enable userID callback =
              validation_error_lost ''lockProfile''
                ''lockProfile: First parameter must be a boolean (true to lock, false to unlock)'')
       \<and> (getType userID \<noteq> ''Function'' \<and> getType userID \<noteq> ''AsyncFunction''
            \<and> is_boolean enable \<and> \<not> truthy userID \<and> \<not> truthy (ctx_userID c) \<longrightarrow>
            profileGuard envG c enable userID callback =
              validation_error_lost ''profileGuard''
                ''profileGuard: User ID not found. Please ensure you are logged in.''
          \<and> lockProfile envL c enable userID callback =
              validation_error_lost ''lockProfile''
                ''lockProfile: User ID not found. Please ensure you are logged in.'')"
proof -
  note cb = callback_or_default_falsy [OF assms]
  have 1: "\<not> truthy postID \<longrightarrow>
            reactPost envR c postID reactionType callback =
              validation_error_lost ''reactPost'' ''reactPost: Post ID is required''"
    by (simp add: reactPost_def cb fail_validation_lost)
  have 2: "truthy postID \<and> \<not> truthy reactionType \<longrightarrow>
            reactPost envR c postID reactionType callback =
              validation_error_lost ''reactPost'' ''reactPost: Reaction type is required''"
    by (simp add: reactPost_def cb fail_validation_lost)
  have 3: "truthy postID \<and> s \<noteq> [] \<and> map_of REACTION_TYPES (toUpperCase envR s) = None \<longrightarrow>
            reactPost envR c postID (str s) callback =
              validation_error_lost ''reactPost''
                ''reactPost: Invalid reaction type. Must be one of: LIKE, LOVE, CARE, HAHA, WOW, SAD, ANGRY, NONE''"
    by (simp add: reactPost_def cb fail_validation_lost reaction_names)
  have 4: "getType userID \<noteq> ''Function'' \<and> getType userID \<noteq> ''AsyncFunction''
            \<and> \<not> is_boolean enable \<longrightarrow>
            profileGuard envG c enable userID callback =
              validation_error_lost ''profileGuard''
                ''profileGuard: First parameter must be a boolean (true to enable, false to disable)''
          \<and> lockProfile envL c enable userID callback =
              validation_error_lost ''lockProfile''
                ''lockProfile: First parameter must be a boolean (true to lock, false to unlock)''"
    by (simp add: profileGuard_def lockProfile_def optional_params_other cb fail_validation_lost)
  have 5: "getType userID \<noteq> ''Function'' \<and> getType userID \<noteq> ''AsyncFunction''
            \<and> is_boolean enable \<and> \<not> truthy userID \<and> \<not> truthy (ctx_userID c) \<longrightarrow>
            profileGuard envG c enable userID callback =
              validation_error_lost ''profileGuard''
                ''profileGuard: User ID not found. Please ensure you are logged in.''
          \<and> lockProfile envL c enable userID callback =
              validation_error_lost ''lockProfile''
                ''lockProfile: User ID not found. Please ensure you are logged in.''"
    by (simp add: profileGuard_def lockProfile_def optional_params_other cb fail_validation_lost
        js_or_def)
  from 1 2 3 4 5 show ?thesis by blast
qed

text \<open>
  Each of the local checks failing in a call without callback.
\<close>

theorem validation_failure_without_callback_witness:
  "reactPost (example_env (Failed VUndefined)) example_ctx VUndefined (str ''LIKE'') VUndefined =
     validation_error_lost ''reactPost'' ''reactPost: Post ID is required''
   \<and> reactPost (example_env (Failed VUndefined)) example_ctx (str ''1'') VUndefined VUndefined =
     validation_error_lost ''reactPost'' ''reactPost: Reaction type is required''
   \<and> reactPost (example_env (Failed VUndefined)) example_ctx (str ''1'') (str ''BOGUS'') VUndefined =
     validation_error_lost ''reactPost''
       ''reactPost: Invalid reaction type. Must be one of: LIKE, LOVE, CARE, HAHA, WOW, SAD, ANGRY, NONE''
   \<and> profileGuard (example_env (Failed VUndefined)) example_ctx (str ''yes'') VUndefined VUndefined =
     validation_error_lost ''profileGuard''
       ''profileGuard: First parameter must be a boolean (true to enable, false to disable)''
   \<and> lockProfile (example_env (Failed VUndefined)) example_ctx (str ''yes'') VUndefined VUndefined =
     validation_error_lost ''lockProfile''
       ''lockProfile: First parameter must be a boolean (true to lock, false to unlock)''
   \<and> profileGuard (example_env (Failed VUndefined)) (example_ctx\<lparr>ctx_userID := VUndefined\<rparr>)
       (VJson (JBool True)) VUndefined VUndefined =
     validation_error_lost ''profileGuard''
       ''profileGuard: User ID not found. Please ensure you are logged in.''
   \<and> lockProfile (example_env (Failed VUndefined)) (example_ctx\<lparr>ctx_userID := VUndefined\<rparr>)
       (VJson (JBool True)) VUndefined VUndefined =
     validation_error_lost ''lockProfile''
       ''lockProfile: User ID not found. Please ensure you are logged in.''"
proof -
  have f: "\<not> truthy VUndefined" by simp
  have bogus: "map_of REACTION_TYPES
      (toUpperCase (example_env (Failed VUndefined) :: react_result env) ''BOGUS'') = None"
    by code_simp
  note t = validation_failure_without_callback [OF f]
  have 1: "reactPost (example_env (Failed VUndefined)) example_ctx VUndefined (str ''LIKE'') VUndefined =
     validation_error_lost ''reactPost'' ''reactPost: Post ID is required''"
    using t [where postID = VUndefined] by simp
  have 2: "reactPost (example_env (Failed VUndefined)) example_ctx (str ''1'') VUndefined VUndefined =
     validation_error_lost ''reactPost'' ''reactPost: Reaction type is required''"
    using t [where postID = "str ''1''" and reactionType = VUndefined] by simp
  have 3: "reactPost (example_env (Failed VUndefined)) example_ctx (str ''1'') (str ''BOGUS'') VUndefined =
     validation_error_lost ''reactPost''
       ''reactPost: Invalid reaction type. Must be one of: LIKE, LOVE, CARE, HAHA, WOW, SAD, ANGRY, NONE''"
    using t [where postID = "str ''1''" and s = "''BOGUS''"
        and envR = "example_env (Failed VUndefined)"] bogus by simp
  have 4: "profileGuard (example_env (Failed VUndefined)) example_ctx (str ''yes'') VUndefined VUndefined =
     validation_error_lost ''profileGuard''
       ''profileGuard: First parameter must be a boolean (true to enable, false to disable)''
   \<and> lockProfile (example_env (Failed VUndefined)) example_ctx (str ''yes'') VUndefined VUndefined =
     validation_error_lost ''lockProfile''
       ''lockProfile: First parameter must be a boolean (true to lock, false to unlock)''"
    using t [where userID = VUndefined and enable = "str ''yes''"] by simp
  have 5: "profileGuard (example_env (Failed VUndefined)) (example_ctx\<lparr>ctx_userID := VUndefined\<rparr>)
       (VJson (JBool True)) VUndefined VUndefined =
     validation_error_lost ''profileGuard''
       ''profileGuard: User ID not found. Please ensure you are logged in.''
   \<and> lockProfile (example_env (Failed VUndefined)) (example_ctx\<lparr>ctx_userID := VUndefined\<rparr>)
       (VJson (JBool True)) VUndefined VUndefined =
     validation_error_lost ''lockProfile''
       ''lockProfile: User ID not found. Please ensure you are logged in.''"
    using t [where userID = VUndefined and enable = "VJson (JBool True)"
        and c = "example_ctx\<lparr>ctx_userID := VUndefined\<rparr>"] by simp
  from 1 2 3 4 5 show ?thesis by (simp only: simp_thms)
qed


section \<open>Arguments of the wrong kind\<close>

lemma not_boolean: "\<not> is_boolean v \<Longrightarrow> getType v \<noteq> ''Boolean''"
  by (cases v rule: getType.cases) simp_all

lemma events_fail_validation:
  "events (fail_validation env cb who e init) =
     ErrorLog who e # (case cb of User f \<Rightarrow> [Callback f e None] | _ \<Rightarrow> [])"
  by (cases cb) (simp_all add: fail_validation_def)

text \<open>
  C2 (as amended). For every call of \<open>profileGuard\<close> whose first argument is not a boolean,
  no request is handed to the transport and no result is delivered. The second variant
  logs the error \<open>profileGuard: First parameter must be a boolean (true to enable, false to
  disable)\<close> and hands it to the callback in effect: a callback supplied by the caller is
  called once, with the error as its first argument. The first variant throws the object
  \<open>{error: "Please pass a boolean as a second argument."}\<close> synchronously.
\<close>

theorem profileGuard_non_boolean:
  assumes "\<not> is_boolean enable"
  shows "events (profileGuard env c enable userID callback) =
           ErrorLog ''profileGuard''
             (VError ''Error''
                ''profileGuard: First parameter must be a boolean (true to enable, false to disable)'')
           # (case callback_or_default (snd (optional_params userID callback)) of
                User f \<Rightarrow>
                  [Callback f
                     (VError ''Error''
                        ''profileGuard: First parameter must be a boolean (true to enable, false to disable)'')
                     None]
              | _ \<Rightarrow> [])
       \<and> requests (events (profileGuard env c enable userID callback)) = []
       \<and> results (profileGuard env c enable userID callback) = []
       \<and> profileGuard_v1 env1 c enable callback1 =
           \<lparr>v1_events = [],
            v1_result = Threw (VJson (JObj
              [(''error'', JStr ''Please pass a boolean as a second argument.'')]))\<rparr>"
  using assms
  by (simp add: profileGuard_def profileGuard_v1_def split_beta Let_def events_fail_validation
      results_fail_validation not_boolean split: callee.splits)

text \<open>
  The calls \<open>profileGuard("yes", undefined, cb)\<close> and \<open>profileGuard("yes", cb)\<close> of the
  first variant.
\<close>

theorem profileGuard_non_boolean_witness:
  "\<not> is_boolean (str ''yes'')
   \<and> events (profileGuard (example_env (Failed VUndefined)) example_ctx (str ''yes'') VUndefined
        (VFun PlainFunction ''cb'')) =
       [ErrorLog ''profileGuard''
          (VError ''Error''
             ''profileGuard: First parameter must be a boolean (true to enable, false to disable)''),
        Callback ''cb''
          (VError ''Error''
             ''profileGuard: First parameter must be a boolean (true to enable, false to disable)'')
          None]
   \<and> requests (events (profileGuard (example_env (Failed VUndefined)) example_ctx (str ''yes'')
        VUndefined (VFun PlainFunction ''cb''))) = []
   \<and> results (profileGuard (example_env (Failed VUndefined)) example_ctx (str ''yes'')
        VUndefined (VFun PlainFunction ''cb'')) = []
   \<and> profileGuard_v1 (example_env (Failed VUndefined)) example_ctx (str ''yes'')
        (VFun PlainFunction ''cb'') =
       \<lparr>v1_events = [],
        v1_result = Threw (VJson (JObj
          [(''error'', JStr ''Please pass a boolean as a second argument.'')]))\<rparr>"
proof -
  have a: "\<not> is_boolean (str ''yes'')" by simp
  have cb: "callback_or_default (snd (optional_params VUndefined (VFun PlainFunction ''cb''))) = User ''cb''"
    by (simp add: optional_params_def callback_or_default_def)
  show ?thesis
    using a profileGuard_non_boolean [OF a, of "example_env (Failed VUndefined)" example_ctx
        VUndefined "VFun PlainFunction ''cb''" "example_env (Failed VUndefined)"
        "VFun PlainFunction ''cb''"]
    unfolding cb by simp
qed

text \<open>
  The first variant throws on \<open>profileGuard("yes")\<close>.
\<close>

theorem profileGuard_non_boolean_counterexample:
  "profileGuard_v1 (example_env (Decoded (VJson (JObj [])))) example_ctx (str ''yes'') VUndefined =
     \<lparr>v1_events = [],
      v1_result = Threw (VJson (JObj
        [(''error'', JStr ''Please pass a boolean as a second argument.'')]))\<rparr>"
  by code_simp

text \<open>
  C3 (as amended). For \<open>profileGuard\<close> (second variant) and \<open>lockProfile\<close>, a function in
  the second positional slot is taken as the callback, whatever the third argument is,
  and the target user defaults to the current user of the session: the call behaves
  as the call with \<open>null\<close>, and (the session's user not being a function) as the call
  with the session's user, in the second slot and the function in the third.
\<close>

theorem function_in_second_slot:
  "profileGuard envG c enable (VFun k f) callback = profileGuard envG c enable null (VFun k f)
   \<and> lockProfile envL c enable (VFun k f) callback = lockProfile envL c enable null (VFun k f)
   \<and> (getType (ctx_userID c) \<noteq> ''Function'' \<and> getType (ctx_userID c) \<noteq> ''AsyncFunction'' \<longrightarrow>
        profileGuard envG c enable (VFun k f) callback =
          profileGuard envG c enable (ctx_userID c) (VFun k f)
        \<and> lockProfile envL c enable (VFun k f) callback =
          lockProfile envL c enable (ctx_userID c) (VFun k f))"
proof -
  have null: "optional_params null (VFun k f) = (null, VFun k f)"
    by (simp add: optional_params_def)
  have session: "optional_params (ctx_userID c) (VFun k f) = (ctx_userID c, VFun k f)"
    if "getType (ctx_userID c) \<noteq> ''Function'' \<and> getType (ctx_userID c) \<noteq> ''AsyncFunction''"
    using that by (simp add: optional_params_def)
  have target: "js_or null (ctx_userID c) = ctx_userID c"
    "js_or (ctx_userID c) (ctx_userID c) = ctx_userID c"
    by (simp_all add: js_or_def)
  show ?thesis
    by (simp add: profileGuard_def lockProfile_def optional_params_function null session target
        Let_def)
qed

text \<open>
  In the concrete session, \<open>lockProfile(true, cb)\<close> calls \<open>cb\<close> with a result for the
  session's user.
\<close>

theorem function_in_second_slot_witness:
  "profileGuard (example_env (Decoded (VJson (JObj [])))) example_ctx (VJson (JBool True))
      (VFun PlainFunction ''cb'') VUndefined =
    profileGuard (example_env (Decoded (VJson (JObj [])))) example_ctx (VJson (JBool True))
      (str ''100000000000001'') (VFun PlainFunction ''cb'')
   \<and> lockProfile (example_env (Decoded (VJson (JObj [])))) example_ctx (VJson (JBool True))
      (VFun PlainFunction ''cb'') VUndefined =
    lockProfile (example_env (Decoded (VJson (JObj [])))) example_ctx (VJson (JBool True))
      (str ''100000000000001'') (VFun PlainFunction ''cb'')
   \<and> Callback ''cb'' null
        (Some \<lparr>res_success = True, res_message = ''Profile locked successfully'',
           res_userID = str ''100000000000001'', res_locked = True,
           res_note = ''Your profile is now locked. Only friends can see your posts and photos.''\<rparr>)
      \<in> set (events (lockProfile (example_env (Decoded (VJson (JObj [])))) example_ctx
            (VJson (JBool True)) (VFun PlainFunction ''cb'') VUndefined))"
proof -
  have u: "ctx_userID example_ctx = str ''100000000000001''"
    by (simp add: example_ctx_def)
  have called: "Callback ''cb'' null
        (Some \<lparr>res_success = True, res_message = ''Profile locked successfully'',
           res_userID = str ''100000000000001'', res_locked = True,
           res_note = ''Your profile is now locked. Only friends can see your posts and photos.''\<rparr>)
      \<in> set (events (lockProfile (example_env (Decoded (VJson (JObj [])))) example_ctx
            (VJson (JBool True)) (VFun PlainFunction ''cb'') VUndefined))"
    by code_simp
  have types: "getType (ctx_userID example_ctx) \<noteq> ''Function''
      \<and> getType (ctx_userID example_ctx) \<noteq> ''AsyncFunction''"
    by (simp add: u)
  note t = function_in_second_slot [of "example_env (Decoded (VJson (JObj [])))" example_ctx
      "VJson (JBool True)" PlainFunction "''cb''" VUndefined
      "example_env (Decoded (VJson (JObj [])))"]
  from t types have
    "profileGuard (example_env (Decoded (VJson (JObj [])))) example_ctx (VJson (JBool True))
        (VFun PlainFunction ''cb'') VUndefined =
      profileGuard (example_env (Decoded (VJson (JObj [])))) example_ctx (VJson (JBool True))
        (ctx_userID example_ctx) (VFun PlainFunction ''cb'')"
    "lockProfile (example_env (Decoded (VJson (JObj [])))) example_ctx (VJson (JBool True))
        (VFun PlainFunction ''cb'') VUndefined =
      lockProfile (example_env (Decoded (VJson (JObj [])))) example_ctx (VJson (JBool True))
        (ctx_userID example_ctx) (VFun PlainFunction ''cb'')"
    by blast+
  then show ?thesis
    unfolding u using called by (intro conjI)
qed

text \<open>
  \<open>reactPost\<close> has no such handling: a function in its second slot is the reaction type,
  and the call is rejected with a \<open>TypeError\<close> without calling the function.
\<close>

theorem function_in_second_slot_counterexample:
  "reactPost (example_env (Decoded (VJson (JObj [])))) example_ctx (str ''1'')
      (VFun PlainFunction ''cb'') VUndefined =
     \<lparr>events = [], internal = Pending,
      returned = Rejected (VError ''TypeError'' ''reactionType.toUpperCase is not a function'')\<rparr>"
  by code_simp

text \<open>
  C5 (as amended). For every non-empty reaction type string whose upper case, as
  \<open>toUpperCase\<close> yields it with the case mapping of the platform, is not a key of
  \<open>REACTION_TYPES\<close>, in a call whose post identifier passes its own check, \<open>reactPost\<close>
  logs the error \<open>reactPost: Invalid reaction type. Must be one of: LIKE, LOVE, CARE, HAHA,
  WOW, SAD, ANGRY, NONE\<close>, which names every key of \<open>REACTION_TYPES\<close>, and hands it to
  the callback in effect; no request is issued and no result is delivered.
\<close>

theorem reactPost_unknown_reaction_type:
  assumes "truthy postID" and "s \<noteq> []" and "map_of REACTION_TYPES (toUpperCase env s) = None"
  shows "events (reactPost env c postID (str s) callback) =
           ErrorLog ''reactPost''
             (VError ''Error''
                ''reactPost: Invalid reaction type. Must be one of: LIKE, LOVE, CARE, HAHA, WOW, SAD, ANGRY, NONE'')
           # (case callback_or_default callback of
                User f \<Rightarrow>
                  [Callback f
                     (VError ''Error''
                        ''reactPost: Invalid reaction type. Must be one of: LIKE, LOVE, CARE, HAHA, WOW, SAD, ANGRY, NONE'')
                     None]
              | _ \<Rightarrow> [])
       \<and> requests (events (reactPost env c postID (str s) callback)) = []
       \<and> results (reactPost env c postID (str s) callback) = []
       \<and> map fst REACTION_TYPES =
           [''LIKE'', ''LOVE'', ''CARE'', ''HAHA'', ''WOW'', ''SAD'', ''ANGRY'', ''NONE'']"
proof -
  have run: "reactPost env c postID (str s) callback =
      fail_validation env (callback_or_default callback) ''reactPost''
        (VError ''Error''
           ''reactPost: Invalid reaction type. Must be one of: LIKE, LOVE, CARE, HAHA, WOW, SAD, ANGRY, NONE'')
        init"
    using assms by (simp add: reactPost_def reaction_names)
  have names: "map fst REACTION_TYPES =
      [''LIKE'', ''LOVE'', ''CARE'', ''HAHA'', ''WOW'', ''SAD'', ''ANGRY'', ''NONE'']"
    by (simp add: REACTION_TYPES_def)
  show ?thesis
    unfolding run
    by (simp add: events_fail_validation results_fail_validation names split: callee.splits)
qed

text \<open>
  The call \<open>reactPost("1", "BOGUS", cb)\<close>.
\<close>

theorem reactPost_unknown_reaction_type_witness:
  "truthy (str ''1'') \<and> ''BOGUS'' \<noteq> []
   \<and> map_of REACTION_TYPES
         (toUpperCase (example_env (Failed VUndefined) :: react_result env) ''BOGUS'') = None
   \<and> events (reactPost (example_env (Failed VUndefined)) example_ctx (str ''1'') (str ''BOGUS'')
        (VFun PlainFunction ''cb'')) =
       [ErrorLog ''reactPost''
          (VError ''Error''
             ''reactPost: Invalid reaction type. Must be one of: LIKE, LOVE, CARE, HAHA, WOW, SAD, ANGRY, NONE''),
        Callback ''cb''
          (VError ''Error''
             ''reactPost: Invalid reaction type. Must be one of: LIKE, LOVE, CARE, HAHA, WOW, SAD, ANGRY, NONE'')
          None]
   \<and> requests (events (reactPost (example_env (Failed VUndefined)) example_ctx (str ''1'')
        (str ''BOGUS'') (VFun PlainFunction ''cb''))) = []
   \<and> results (reactPost (example_env (Failed VUndefined)) example_ctx (str ''1'') (str ''BOGUS'')
        (VFun PlainFunction ''cb'')) = []"
proof -
  have a: "truthy (str ''1'')" by simp
  have b: "''BOGUS'' \<noteq> []" by simp
  have c: "map_of REACTION_TYPES
      (toUpperCase (example_env (Failed VUndefined) :: react_result env) ''BOGUS'') = None"
    by code_simp
  have cb: "callback_or_default (VFun PlainFunction ''cb'') = User ''cb''"
    by (simp add: callback_or_default_def)
  show ?thesis
    using a b c reactPost_unknown_reaction_type [OF a b c, of example_ctx "VFun PlainFunction ''cb''"]
    unfolding cb by simp
qed

text \<open>
  The empty string matches no reaction name, and its error does not list the names.
\<close>

theorem reactPost_unknown_reaction_type_counterexample:
  "map_of REACTION_TYPES
     (toUpperCase (example_env (Failed VUndefined) :: react_result env) []) = None
   \<and> events (reactPost (example_env (Failed VUndefined)) example_ctx (str ''1'') (str [])
        (VFun PlainFunction ''cb'')) =
       [ErrorLog ''reactPost'' (VError ''Error'' ''reactPost: Reaction type is required''),
        Callback ''cb'' (VError ''Error'' ''reactPost: Reaction type is required'') None]"
  by code_simp


section \<open>Reversibility of the feedback identifier\<close>



















end
